theory Spec2Isabelle
  imports Complex_Main "HOL-Library.Sublist" "HOL-Library.Log_Nat"
begin

section \<open>tikzmagic: a shallow embedding of \<^verbatim>\<open>src/tikzmagic/tikzmagic.py\<close>\<close>

text \<open>
  The module has four functions: \<^verbatim>\<open>tikz\<close> (parse the magic line, assemble the LaTeX
  document), \<^verbatim>\<open>latex2image\<close> (temporary directory, compile, optional export, convert),
  and the two subprocess wrappers \<^verbatim>\<open>sh_latex\<close> and \<^verbatim>\<open>sh_convert\<close>.

  Everything the Python does besides computing strings is a change of the world outside
  the interpreter. The world is explicit here: a file system, the working directory, and a
  trace of the operations the code performed, in order. An exception is a value of type
  \<open>error\<close>; a function that may raise returns \<open>error + 'a\<close> together with the world it
  leaves behind.

  Python \<^verbatim>\<open>str\<close> is \<open>string\<close>; file contents are strings as well (the text layer of
  \<^verbatim>\<open>open(..., 'w')\<close> is taken to be the identity). The platform is POSIX: \<^verbatim>\<open>os.name\<close> is
  \<^verbatim>\<open>'posix'\<close> and \<^verbatim>\<open>os.path\<close> is \<^verbatim>\<open>posixpath\<close>. There are no symbolic links and no
  permissions.
\<close>

subsection \<open>Characters that a string literal cannot hold\<close>

abbreviation BSL :: char where "BSL \<equiv> CHR 0x5C"

subsection \<open>Exceptions\<close>

datatype error =
    Exception string
  | SystemExit int
  | ValueError string
  | KeyError string
  | IndexError string
  | OverflowError string
  | UnboundLocalError string
  | FileNotFoundError string
  | FileExistsError string
  | IsADirectoryError string
  | NotADirectoryError string
  | SameFileError string

subsection \<open>The world: file system, working directory, trace\<close>

text \<open>
  A path is the string the program passes to the operating system. A location is where
  a path leads: the list of directory names from the root. The file system maps
  locations to what is there.
\<close>

type_synonym path = string

type_synonym loc = "string list"

datatype node = File string | Dir

datatype event =
    EMkdir path
  | EWrite path
  | ECall "string list"
  | ECopy path path
  | ERead path
  | ERmtree path
  | EPrint string

record world =
  fs :: "loc \<Rightarrow> node option"
  cwd :: path
  trace :: "event list"

definition log :: "event \<Rightarrow> world \<Rightarrow> world" where
  "log e w = w\<lparr>trace := trace w @ [e]\<rparr>"

text \<open>
  What lies outside the repository and outside Python: the directory for temporary files,
  the names \<^verbatim>\<open>tempfile\<close> draws at random, and what running a command line does to the
  file system. \<open>exec argv f\<close> is \<open>Inl e\<close> when the program cannot be started
  (\<^verbatim>\<open>subprocess.call\<close> raises), and \<open>Inr f'\<close> when the process ran and exited, leaving the
  file system \<open>f'\<close>; its exit status is dropped by the callers, so it is not modelled.
\<close>

record env =
  gettempdir :: path
  rand_names :: "string list"
  exec :: "string list \<Rightarrow> (loc \<Rightarrow> node option) \<Rightarrow> error + (loc \<Rightarrow> node option)"

subsection \<open>Path names\<close>

text \<open>\<^verbatim>\<open>posixpath.isabs\<close> and \<^verbatim>\<open>posixpath.join\<close>\<close>

definition isabs :: "path \<Rightarrow> bool" where
  "isabs p = (p \<noteq> [] \<and> hd p = CHR ''/'')"

definition join :: "path \<Rightarrow> path \<Rightarrow> path" where
  "join a b =
     (if isabs b then b
      else if a = [] \<or> last a = CHR ''/'' then a @ b
      else a @ ''/'' @ b)"

text \<open>The names between the slashes of a path; empty names (doubled or trailing
  slashes) are dropped.\<close>

fun split_from :: "string \<Rightarrow> string \<Rightarrow> string list" where
  "split_from cur [] = (if cur = [] then [] else [cur])"
| "split_from cur (c # cs) =
     (if c = CHR ''/''
      then (if cur = [] then split_from [] cs else cur # split_from [] cs)
      else split_from (cur @ [c]) cs)"

definition components :: "path \<Rightarrow> string list" where
  "components p = split_from [] p"

text \<open>Following the names from a location: \<^verbatim>\<open>.\<close> stays, \<^verbatim>\<open>..\<close> goes up (and stays at the
  root), any other name goes down.\<close>

fun walk :: "loc \<Rightarrow> string list \<Rightarrow> loc" where
  "walk l [] = l"
| "walk l (c # cs) =
     (if c = ''.'' then walk l cs
      else if c = ''..'' then walk (butlast l) cs
      else walk (l @ [c]) cs)"

text \<open>Where a path leads: an absolute path from the root, any other path from the
  working directory. The names are followed as written: \<^verbatim>\<open>..\<close> drops the last name without
  a look at the file system, so a path through a regular file or a missing directory
  leads where it would lead if directories were there, and there are no symbolic links.\<close>

definition resolve :: "world \<Rightarrow> path \<Rightarrow> loc" where
  "resolve w p =
     (if isabs p then walk [] (components p)
      else walk (walk [] (components (cwd w))) (components p))"

text \<open>What \<^verbatim>\<open>stat\<close> finds at a path: nothing at the empty path, and only a directory at
  a path that ends in a slash.\<close>

definition lookup :: "world \<Rightarrow> path \<Rightarrow> node option" where
  "lookup w p =
     (if p = [] then None
      else case fs w (resolve w p) of
             Some (File s) \<Rightarrow> (if last p = CHR ''/'' then None else Some (File s))
           | r \<Rightarrow> r)"

definition exists :: "world \<Rightarrow> path \<Rightarrow> bool" where
  "exists w p = (lookup w p \<noteq> None)"

definition isfile :: "world \<Rightarrow> path \<Rightarrow> bool" where
  "isfile w p = (case lookup w p of Some (File _) \<Rightarrow> True | _ \<Rightarrow> False)"

definition isdir :: "world \<Rightarrow> path \<Rightarrow> bool" where
  "isdir w p = (lookup w p = Some Dir)"

text \<open>A location lies in the tree rooted at \<open>d\<close> when the way to it goes through \<open>d\<close>.\<close>

definition below :: "loc \<Rightarrow> loc \<Rightarrow> bool" where
  "below d l = prefix d l"

subsection \<open>File operations\<close>

text \<open>Opening \<open>p\<close> for writing creates or truncates the file there; it fails when \<open>p\<close> is
  empty, names a directory, or its parent directory is missing. Which exception it is
  follows the plain cases; Python tells more apart (\<^verbatim>\<open>NotADirectoryError\<close> when the parent
  is a regular file, and \<^verbatim>\<open>shutil.copyfile\<close> reports a destination that ends in a slash and
  does not exist as \<^verbatim>\<open>FileNotFoundError\<close>).\<close>

definition open_for_writing :: "world \<Rightarrow> path \<Rightarrow> error option" where
  "open_for_writing w p =
     (if p = [] then Some (FileNotFoundError p)
      else if last p = CHR ''/'' \<or> fs w (resolve w p) = Some Dir then Some (IsADirectoryError p)
      else if fs w (butlast (resolve w p)) \<noteq> Some Dir then Some (FileNotFoundError p)
      else None)"

text \<open>\<^verbatim>\<open>with open(p, 'w') as t: t.write(s)\<close>\<close>

definition write_file :: "path \<Rightarrow> string \<Rightarrow> world \<Rightarrow> (error + unit) \<times> world" where
  "write_file p s w =
     (case open_for_writing w p of
        Some e \<Rightarrow> (Inl e, w)
      | None \<Rightarrow> (Inr (), log (EWrite p) (w\<lparr>fs := (fs w)(resolve w p \<mapsto> File s)\<rparr>)))"

text \<open>\<^verbatim>\<open>open(p, 'rb').read()\<close>\<close>

definition read_file :: "path \<Rightarrow> world \<Rightarrow> (error + string) \<times> world" where
  "read_file p w =
     (case lookup w p of
        None \<Rightarrow> (Inl (FileNotFoundError p), w)
      | Some Dir \<Rightarrow> (Inl (IsADirectoryError p), w)
      | Some (File s) \<Rightarrow> (Inr s, log (ERead p) w))"

text \<open>\<^verbatim>\<open>shutil.copyfile(src, dst)\<close>: refuses to copy a file onto itself, then opens the
  source for reading and the destination for writing.\<close>

definition copyfile :: "path \<Rightarrow> path \<Rightarrow> world \<Rightarrow> (error + unit) \<times> world" where
  "copyfile src dst w =
     (if lookup w src \<noteq> None \<and> lookup w dst \<noteq> None \<and> resolve w src = resolve w dst
      then (Inl (SameFileError src), w)
      else case lookup w src of
        None \<Rightarrow> (Inl (FileNotFoundError src), w)
      | Some Dir \<Rightarrow> (Inl (IsADirectoryError src), w)
      | Some (File s) \<Rightarrow>
          (case open_for_writing w dst of
             Some e \<Rightarrow> (Inl e, w)
           | None \<Rightarrow>
               (Inr (), log (ECopy src dst) (w\<lparr>fs := (fs w)(resolve w dst \<mapsto> File s)\<rparr>))))"

text \<open>\<^verbatim>\<open>shutil.rmtree(d)\<close>: removes \<open>d\<close> and everything below it; raises when \<open>d\<close> is missing
  or is not a directory.\<close>

definition rmtree :: "path \<Rightarrow> world \<Rightarrow> (error + unit) \<times> world" where
  "rmtree d w =
     (case lookup w d of
        None \<Rightarrow> (Inl (FileNotFoundError d), w)
      | Some (File _) \<Rightarrow> (Inl (NotADirectoryError d), w)
      | Some Dir \<Rightarrow>
          (Inr (),
           log (ERmtree d)
             (w\<lparr>fs := (\<lambda>l. if below (resolve w d) l then None else fs w l)\<rparr>)))"

text \<open>\<^verbatim>\<open>tempfile.mkdtemp()\<close>: tries the candidate names \<^verbatim>\<open>tmp<random>\<close> in the temporary
  directory one after the other, skipping those that exist, and creates the first free
  one with \<^verbatim>\<open>os.mkdir\<close>.\<close>

fun mkdtemp_loop :: "path \<Rightarrow> string list \<Rightarrow> world \<Rightarrow> (error + path) \<times> world" where
  "mkdtemp_loop dir [] w =
     (Inl (FileExistsError ''No usable temporary directory name found''), w)"
| "mkdtemp_loop dir (n # ns) w =
     (let file = join dir (''tmp'' @ n)
      in if fs w (resolve w file) \<noteq> None then mkdtemp_loop dir ns w
         else if fs w (butlast (resolve w file)) \<noteq> Some Dir
         then (Inl (FileNotFoundError file), w)
         else (Inr file, log (EMkdir file) (w\<lparr>fs := (fs w)(resolve w file \<mapsto> Dir)\<rparr>)))"

definition mkdtemp :: "env \<Rightarrow> world \<Rightarrow> (error + path) \<times> world" where
  "mkdtemp E w = mkdtemp_loop (gettempdir E) (rand_names E) w"

text \<open>\<^verbatim>\<open>subprocess.call(argv)\<close>\<close>

definition subprocess_call :: "env \<Rightarrow> string list \<Rightarrow> world \<Rightarrow> (error + unit) \<times> world" where
  "subprocess_call E argv w =
     (case exec E argv (fs w) of
        Inl e \<Rightarrow> (Inl e, w)
      | Inr f \<Rightarrow> (Inr (), log (ECall argv) (w\<lparr>fs := f\<rparr>)))"

definition print :: "string \<Rightarrow> world \<Rightarrow> world" where
  "print s w = log (EPrint s) w"

subsection \<open>\<^verbatim>\<open>str(int)\<close>\<close>

definition digit :: "nat \<Rightarrow> char" where
  "digit d = ''0123456789'' ! d"

function str_nat :: "nat \<Rightarrow> string" where
  "str_nat n = (if n < 10 then [digit n] else str_nat (n div 10) @ [digit (n mod 10)])"
  by pat_completeness auto
termination
  by (relation "measure id") auto

declare str_nat.simps [simp del]

definition str_int :: "int \<Rightarrow> string" where
  "str_int i = (if i < 0 then CHR ''-'' # str_nat (nat (- i)) else str_nat (nat i))"

subsection \<open>Python numbers: \<^verbatim>\<open>float\<close> and \<^verbatim>\<open>int(float)\<close>\<close>

text \<open>
  A Python \<^verbatim>\<open>float\<close> is an IEEE 754 binary64 value: a finite number, an infinity or a
  NaN. A finite one is kept as the rational it denotes (the sign of a zero is not
  observable through \<^verbatim>\<open>int()\<close> or a comparison and is dropped). Arithmetic rounds the exact
  result to the nearest binary64 value, ties to even, and overflows to an infinity.
\<close>

datatype pyfloat = Finite rat | PosInf | NegInf | NaN

definition pow2 :: "int \<Rightarrow> rat" where
  "pow2 k = (if 0 \<le> k then 2 ^ nat k else 1 / 2 ^ nat (- k))"

text \<open>\<open>floor_log2 a\<close> is \<open>\<lfloor>log\<^sub>2 a\<rfloor>\<close> for \<open>a > 0\<close>.\<close>

definition floor_log2 :: "rat \<Rightarrow> int" where
  "floor_log2 a =
     (let k = bitlen (fst (quotient_of a)) - bitlen (snd (quotient_of a))
      in if a < pow2 k then k - 1 else k)"

definition round_half_even :: "rat \<Rightarrow> int" where
  "round_half_even x =
     (let f = \<lfloor>x\<rfloor>; r = x - of_int f
      in if r < 1 / 2 then f else if 1 / 2 < r then f + 1 else if even f then f else f + 1)"

definition round_double :: "rat \<Rightarrow> pyfloat" where
  "round_double q =
     (if q = 0 then Finite 0
      else
        let a = \<bar>q\<bar>;
            e = max (floor_log2 a - 52) (- 1074);
            v = of_int (round_half_even (a / pow2 e)) * pow2 e
        in if pow2 1024 \<le> v then (if q < 0 then NegInf else PosInf)
           else Finite (if q < 0 then - v else v))"

fun float_mul :: "pyfloat \<Rightarrow> pyfloat \<Rightarrow> pyfloat" where
  "float_mul NaN _ = NaN"
| "float_mul _ NaN = NaN"
| "float_mul (Finite a) (Finite b) = round_double (a * b)"
| "float_mul (Finite a) PosInf = (if a = 0 then NaN else if 0 < a then PosInf else NegInf)"
| "float_mul (Finite a) NegInf = (if a = 0 then NaN else if 0 < a then NegInf else PosInf)"
| "float_mul PosInf (Finite b) = (if b = 0 then NaN else if 0 < b then PosInf else NegInf)"
| "float_mul NegInf (Finite b) = (if b = 0 then NaN else if 0 < b then NegInf else PosInf)"
| "float_mul PosInf PosInf = PosInf"
| "float_mul PosInf NegInf = NegInf"
| "float_mul NegInf PosInf = NegInf"
| "float_mul NegInf NegInf = PosInf"

text \<open>\<^verbatim>\<open>x > 0\<close> on floats\<close>

fun float_positive :: "pyfloat \<Rightarrow> bool" where
  "float_positive (Finite q) = (0 < q)"
| "float_positive PosInf = True"
| "float_positive NegInf = False"
| "float_positive NaN = False"

text \<open>\<^verbatim>\<open>int(x)\<close> for a float: truncation towards zero.\<close>

fun int_of_float :: "pyfloat \<Rightarrow> error + int" where
  "int_of_float (Finite q) = Inr (if 0 \<le> q then \<lfloor>q\<rfloor> else \<lceil>q\<rceil>)"
| "int_of_float PosInf = Inl (OverflowError ''cannot convert float infinity to integer'')"
| "int_of_float NegInf = Inl (OverflowError ''cannot convert float infinity to integer'')"
| "int_of_float NaN = Inl (ValueError ''cannot convert float NaN to integer'')"

text \<open>The value of \<^verbatim>\<open>args.scale\<close>: the default is the integer \<^verbatim>\<open>1\<close>, a value given on
  the line has gone through \<^verbatim>\<open>float\<close>.\<close>

datatype scale_val = ScaleInt int | ScaleFloat pyfloat

text \<open>\<^verbatim>\<open>int(args.scale * 300)\<close>\<close>

fun density_of :: "scale_val \<Rightarrow> error + int" where
  "density_of (ScaleInt i) = Inr (i * 300)"
| "density_of (ScaleFloat x) = int_of_float (float_mul x (Finite 300))"

subsection \<open>The parsed request\<close>

text \<open>The value of \<^verbatim>\<open>args.border\<close>: the default is the integer \<^verbatim>\<open>4\<close>, a value given on
  the line is kept as the string it is.\<close>

datatype border_val = BorderInt int | BorderStr string

fun format_border :: "border_val \<Rightarrow> string" where
  "format_border (BorderInt i) = str_int i"
| "format_border (BorderStr s) = s"

record args =
  latex_packages :: string
  latex_preamble :: string
  tikz_libraries :: string
  input_file :: "string option"
  export_file :: "string option"
  scale :: scale_val
  border :: border_val
  wrap_env :: bool
  debug_mode :: bool

text \<open>The defaults of the \<^verbatim>\<open>add_argument\<close> and \<^verbatim>\<open>set_defaults\<close> calls.\<close>

definition default_args :: args where
  "default_args =
     \<lparr>latex_packages = [], latex_preamble = [], tikz_libraries = [],
      input_file = None, export_file = None, scale = ScaleInt 1, border = BorderInt 4,
      wrap_env = True, debug_mode = False\<rparr>"

subsection \<open>\<^verbatim>\<open>LATEX_TEMPLATE\<close> and \<^verbatim>\<open>str.format\<close>\<close>

definition LATEX_TEMPLATE :: string where
  "LATEX_TEMPLATE =
     ''\<newline>'' @
     BSL # ''documentclass[tikz,border={border}]{{standalone}}\<newline>'' @
     BSL # ''usepackage{{tikz,{latex_pkgs}}}\<newline>'' @
     BSL # ''usetikzlibrary{{{tikz_libs}}}\<newline>'' @
     ''{latex_pre}\<newline>'' @
     BSL # ''begin{{document}}\<newline>'' @
     ''{content}\<newline>'' @
     BSL # ''end{{document}}\<newline>''"

text \<open>
  \<^verbatim>\<open>str.format\<close> with keyword arguments, for format strings whose replacement fields are
  plain names: \<^verbatim>\<open>{{\<close> and \<^verbatim>\<open>}}\<close> stand for one brace, \<^verbatim>\<open>{name}\<close> is replaced by the value
  of the keyword. The scanner reads the format string once, from left to right; a value
  that is put in is not scanned again.
\<close>

datatype fstate = Lit | Opened | Field string | Closed

fun emit :: "string \<Rightarrow> error + string \<Rightarrow> error + string" where
  "emit s (Inl e) = Inl e"
| "emit s (Inr t) = Inr (s @ t)"

fun format_scan :: "fstate \<Rightarrow> string \<Rightarrow> (string \<Rightarrow> string option) \<Rightarrow> error + string" where
  "format_scan Lit [] kw = Inr []"
| "format_scan Opened [] kw = Inl (ValueError ''Single { encountered in format string'')"
| "format_scan (Field n) [] kw = Inl (ValueError ''expected } before end of string'')"
| "format_scan Closed [] kw = Inl (ValueError ''Single } encountered in format string'')"
| "format_scan Lit (c # cs) kw =
     (if c = CHR ''{'' then format_scan Opened cs kw
      else if c = CHR ''}'' then format_scan Closed cs kw
      else emit [c] (format_scan Lit cs kw))"
| "format_scan Opened (c # cs) kw =
     (if c = CHR ''{'' then emit ''{'' (format_scan Lit cs kw)
      else if c = CHR ''}'' then Inl (IndexError ''Replacement index 0 out of range'')
      else format_scan (Field [c]) cs kw)"
| "format_scan (Field n) (c # cs) kw =
     (if c = CHR ''}'' then
        (case kw n of
           None \<Rightarrow> Inl (KeyError n)
         | Some v \<Rightarrow> emit v (format_scan Lit cs kw))
      else format_scan (Field (n @ [c])) cs kw)"
| "format_scan Closed (c # cs) kw =
     (if c = CHR ''}'' then emit ''}'' (format_scan Lit cs kw)
      else Inl (ValueError ''Single } encountered in format string''))"

definition format :: "string \<Rightarrow> (string \<times> string) list \<Rightarrow> error + string" where
  "format t kwargs = format_scan Lit t (map_of kwargs)"

subsection \<open>The subprocess wrappers\<close>

definition sh_latex :: "env \<Rightarrow> path \<Rightarrow> path \<Rightarrow> bool \<Rightarrow> world \<Rightarrow> (error + unit) \<times> world" where
  "sh_latex E in_file out_dir debug w =
     (let w1 = (if debug
                then print (''subprocess.call(['xelatex', '-output-directory', '' @ out_dir @
                            '', '' @ in_file @ ''])'') w
                else w)
      in subprocess_call E [''xelatex'', ''-output-directory'', out_dir, in_file] w1)"

definition sh_convert ::
  "env \<Rightarrow> path \<Rightarrow> path \<Rightarrow> int \<Rightarrow> bool \<Rightarrow> world \<Rightarrow> (error + unit) \<times> world" where
  "sh_convert E in_file out_file density debug w =
     (let w1 = (if debug
                then print (''magick convert -density '' @ [CHR 0x22] @ str_int density @
                            [CHR 0x22] @ '' '' @ [CHR 0x22] @ in_file @ [CHR 0x22] @ '' '' @
                            [CHR 0x22] @ out_file @ [CHR 0x22]) w
                else w)
      in subprocess_call E
           [''magick'', ''convert'', ''-density'', str_int density, in_file, out_file] w1)"

subsection \<open>\<^verbatim>\<open>latex2image\<close>\<close>

datatype image = Image string

text \<open>The body of the \<^verbatim>\<open>try\<close> block, after \<^verbatim>\<open>temp_dir\<close> has been bound.\<close>

definition latex2image_try ::
  "env \<Rightarrow> string \<Rightarrow> int \<Rightarrow> path option \<Rightarrow> bool \<Rightarrow> path \<Rightarrow> world \<Rightarrow> (error + image) \<times> world"
where
  "latex2image_try E latex density export debug temp_dir w =
     (let temp_tex = join temp_dir ''tikzfile.tex'';
          temp_pdf = join temp_dir ''tikzfile.pdf'';
          temp_png = join temp_dir ''tikzfile.png''
      in case write_file temp_tex latex w of
           (Inl e, w1) \<Rightarrow> (Inl e, w1)
         | (Inr _, w1) \<Rightarrow>
      (case sh_latex E temp_tex temp_dir debug w1 of
           (Inl e, w2) \<Rightarrow> (Inl e, w2)
         | (Inr _, w2) \<Rightarrow>
      if \<not> isfile w2 temp_pdf
      then (Inl (Exception ''xelatex didn't produce a PDF file.''), w2)
      else
      (case (case export of
               None \<Rightarrow> (Inr (), w2)
             | Some dst \<Rightarrow> if dst \<noteq> [] then copyfile temp_pdf dst w2 else (Inr (), w2)) of
           (Inl e, w3) \<Rightarrow> (Inl e, w3)
         | (Inr _, w3) \<Rightarrow>
      (case sh_convert E temp_pdf temp_png density debug w3 of
           (Inl e, w4) \<Rightarrow> (Inl e, w4)
         | (Inr _, w4) \<Rightarrow>
      (case read_file temp_png w4 of
           (Inl e, w5) \<Rightarrow> (Inl e, w5)
         | (Inr data, w5) \<Rightarrow> (Inr (Image data), w5))))))"

text \<open>
  \<^verbatim>\<open>try: ... finally: shutil.rmtree(temp_dir)\<close>. The \<^verbatim>\<open>finally\<close> clause runs on every way
  out of the block. When it raises, its exception replaces the outcome of the block. When
  \<^verbatim>\<open>mkdtemp\<close> itself raised, \<^verbatim>\<open>temp_dir\<close> was never bound and the clause raises
  \<^verbatim>\<open>UnboundLocalError\<close>.
\<close>

definition latex2image ::
  "env \<Rightarrow> string \<Rightarrow> int \<Rightarrow> path option \<Rightarrow> bool \<Rightarrow> world \<Rightarrow> (error + image) \<times> world"
where
  "latex2image E latex density export debug w =
     (case mkdtemp E w of
        (Inl e, w0) \<Rightarrow> (Inl (UnboundLocalError ''temp_dir''), w0)
      | (Inr temp_dir, w0) \<Rightarrow>
          (case latex2image_try E latex density export debug temp_dir w0 of
             (r, w1) \<Rightarrow>
               (case rmtree temp_dir w1 of
                  (Inl e, w2) \<Rightarrow> (Inl e, w2)
                | (Inr _, w2) \<Rightarrow> (r, w2))))"

subsection \<open>\<^verbatim>\<open>tikz\<close>, after the line has been parsed\<close>

definition os_name :: string where
  "os_name = ''posix''"

definition replace_backslash :: "string \<Rightarrow> string" where
  "replace_backslash s = map (\<lambda>c. if c = BSL then CHR ''/'' else c) s"

definition input_directive :: "string \<Rightarrow> string" where
  "input_directive f = BSL # ''input{'' @ f @ ''}''"

definition begin_tikzpicture :: string where
  "begin_tikzpicture = BSL # ''begin{tikzpicture}''"

definition end_tikzpicture :: string where
  "end_tikzpicture = BSL # ''end{tikzpicture}''"

text \<open>Lines 47 to 58: the content of \<^verbatim>\<open>input_file\<close> is included after the cell.\<close>

definition add_input :: "args \<Rightarrow> string \<Rightarrow> world \<Rightarrow> error + string" where
  "add_input a cell w =
     (case input_file a of
        None \<Rightarrow> Inr cell
      | Some i \<Rightarrow>
          if i = [] then Inr cell
          else
            let ifile = join (cwd w) i
            in if exists w ifile \<and> isfile w ifile
               then (if os_name = ''nt''
                     then Inr (cell @ input_directive (replace_backslash ifile))
                     else Inr (cell @ input_directive ifile))
               else Inl (Exception
                      ''tikz: inputfile does not exists in current working directory.''))"

text \<open>Lines 60 and 61\<close>

definition wrap :: "args \<Rightarrow> string \<Rightarrow> string" where
  "wrap a cell = (if wrap_env a then begin_tikzpicture @ cell @ end_tikzpicture else cell)"

text \<open>Lines 63 to 67\<close>

definition assemble :: "args \<Rightarrow> string \<Rightarrow> error + string" where
  "assemble a cell =
     format LATEX_TEMPLATE
       [(''content'', cell),
        (''border'', format_border (border a)),
        (''latex_pre'', latex_preamble a),
        (''latex_pkgs'', latex_packages a),
        (''tikz_libs'', tikz_libraries a)]"

text \<open>Lines 46 to 67: the document that is handed to \<^verbatim>\<open>latex2image\<close>.\<close>

definition prepare_latex :: "args \<Rightarrow> string \<Rightarrow> world \<Rightarrow> error + string" where
  "prepare_latex a cell w =
     (case add_input a cell w of
        Inl e \<Rightarrow> Inl e
      | Inr cell1 \<Rightarrow> assemble a (wrap a cell1))"

text \<open>Lines 73 and 74\<close>

definition export_path :: "args \<Rightarrow> world \<Rightarrow> path option" where
  "export_path a w =
     (case export_file a of
        None \<Rightarrow> None
      | Some e \<Rightarrow> if e = [] then Some e else Some (join (cwd w) e))"

definition tikz_args :: "env \<Rightarrow> args \<Rightarrow> string \<Rightarrow> world \<Rightarrow> (error + image) \<times> world" where
  "tikz_args E a cell w =
     (case prepare_latex a cell w of
        Inl e \<Rightarrow> (Inl e, w)
      | Inr latex \<Rightarrow>
     (let w1 = (if debug_mode a then print latex w else w)
      in case density_of (scale a) of
           Inl e \<Rightarrow> (Inl e, w1)
         | Inr density \<Rightarrow> latex2image E latex density (export_path a w) (debug_mode a) w1))"

subsection \<open>\<^verbatim>\<open>float(str)\<close>\<close>

text \<open>
  The conversion \<^verbatim>\<open>type=float\<close> applies to the operand of \<^verbatim>\<open>--scale\<close>, for ASCII strings:
  white space around the number is stripped; an underscore may stand between two digits;
  then comes an optional sign and either \<^verbatim>\<open>inf\<close>, \<^verbatim>\<open>infinity\<close> or \<^verbatim>\<open>nan\<close> in any case, or a
  decimal number with at least one digit and an optional exponent. The decimal value is
  rounded to the nearest binary64 value. \<open>None\<close> stands for \<^verbatim>\<open>ValueError\<close>.
\<close>

definition digit_val :: "char \<Rightarrow> nat option" where
  "digit_val c =
     (let n = (of_char c :: nat) in if 48 \<le> n \<and> n \<le> 57 then Some (n - 48) else None)"

definition is_digit :: "char \<Rightarrow> bool" where
  "is_digit c = (digit_val c \<noteq> None)"

definition is_space :: "char \<Rightarrow> bool" where
  "is_space c = (let n = (of_char c :: nat) in n = 32 \<or> (9 \<le> n \<and> n \<le> 13))"

definition lower :: "char \<Rightarrow> char" where
  "lower c = (let n = (of_char c :: nat) in if 65 \<le> n \<and> n \<le> 90 then char_of (n + 32) else c)"

definition strip :: "string \<Rightarrow> string" where
  "strip s = rev (dropWhile is_space (rev (dropWhile is_space s)))"

fun underscores_ok :: "char \<Rightarrow> string \<Rightarrow> bool" where
  "underscores_ok prev [] = (prev \<noteq> CHR ''_'')"
| "underscores_ok prev (c # cs) =
     (if c = CHR ''_'' then is_digit prev \<and> underscores_ok c cs
      else if prev = CHR ''_'' \<and> \<not> is_digit c then False
      else underscores_ok c cs)"

definition nat_of_digits :: "string \<Rightarrow> nat" where
  "nat_of_digits ds =
     foldl (\<lambda>acc c. 10 * acc + (case digit_val c of None \<Rightarrow> 0 | Some d \<Rightarrow> d)) 0 ds"

text \<open>An optional sign: the factor it stands for and the rest of the string.\<close>

fun take_sign :: "string \<Rightarrow> bool \<times> string" where
  "take_sign [] = (False, [])"
| "take_sign (c # cs) =
     (if c = CHR ''-'' then (True, cs) else if c = CHR ''+'' then (False, cs) else (False, c # cs))"

definition pow10 :: "bool \<Rightarrow> nat \<Rightarrow> rat" where
  "pow10 neg n = (if neg then 1 / 10 ^ n else 10 ^ n)"

text \<open>\<^verbatim>\<open>digits [. digits] [e [sign] digits]\<close> or \<^verbatim>\<open>. digits [e [sign] digits]\<close>, as the exact
  rational it denotes.\<close>

definition parse_decimal :: "string \<Rightarrow> rat option" where
  "parse_decimal s =
     (let ip = takeWhile is_digit s;
          r1 = dropWhile is_digit s;
          fp = (case r1 of [] \<Rightarrow> [] | c # t \<Rightarrow> if c = CHR ''.'' then takeWhile is_digit t else []);
          r2 = (case r1 of [] \<Rightarrow> [] | c # t \<Rightarrow> if c = CHR ''.'' then dropWhile is_digit t else r1);
          mant = of_nat (nat_of_digits (ip @ fp)) / 10 ^ length fp
      in if ip = [] \<and> fp = [] then None
         else case r2 of
           [] \<Rightarrow> Some mant
         | c # t \<Rightarrow>
             if c = CHR ''e'' \<or> c = CHR ''E'' then
               (case take_sign t of
                  (neg, ds) \<Rightarrow>
                    if ds \<noteq> [] \<and> list_all is_digit ds
                    then Some (mant * pow10 neg (nat_of_digits ds))
                    else None)
             else None)"

definition py_float :: "string \<Rightarrow> pyfloat option" where
  "py_float s =
     (if \<not> underscores_ok (CHR 0x00) s then None
      else
        (case take_sign (filter (\<lambda>c. c \<noteq> CHR ''_'') (strip s)) of
           (neg, body) \<Rightarrow>
             let word = map lower body
             in if word = ''inf'' \<or> word = ''infinity'' then Some (if neg then NegInf else PosInf)
                else if word = ''nan'' then Some NaN
                else (case parse_decimal body of
                        None \<Rightarrow> None
                      | Some q \<Rightarrow> Some (round_double (if neg then - q else q)))))"

subsection \<open>The magic line\<close>

text \<open>
  \<^verbatim>\<open>shlex.split\<close> and the way \<^verbatim>\<open>argparse\<close> finds the option strings in the tokens are
  library code; the line is taken here as the options it spells, in order, each with its
  operand. An operand is either attached to its option (\<^verbatim>\<open>--scale=2\<close>, \<^verbatim>\<open>-s2\<close>) or the token
  that follows it (\<^verbatim>\<open>-s 2\<close>). What the source configures for each option is modelled: the
  destination, the conversion of the operand (\<^verbatim>\<open>type=float\<close> for \<^verbatim>\<open>--scale\<close>, none for the
  others), and the flags. \<^verbatim>\<open>argparse\<close> adds \<^verbatim>\<open>--help\<close> on its own. A later option overrides
  an earlier one. \<^verbatim>\<open>parser.error\<close> exits with status 2, \<^verbatim>\<open>--help\<close> with status 0.

  A token that follows an option is its operand only if \<^verbatim>\<open>argparse\<close> does not take it for
  an option itself (\<^verbatim>\<open>_parse_optional\<close>, CPython 3.11): a token that begins with \<^verbatim>\<open>-\<close> is an
  operand only if it is \<^verbatim>\<open>-\<close> alone, or matches no option string, not even as an
  abbreviation, and looks like a negative number or contains a space. Otherwise the
  option before it is left without operand and the parser exits with status 2. A token
  that abbreviates several long options makes the parser exit before any option is
  processed. The end-of-options token \<^verbatim>\<open>--\<close> is not an operand; lines that use it to pass
  further tokens are outside this model.

  A line with a token that is no option of this parser, with a positional argument, or
  with an option that lacks its operand at the end of the line is no value of this type:
  the parser exits with status 2 on each of them, and \<^verbatim>\<open>shlex.split\<close> raises on an unclosed
  quotation.
\<close>

definition option_strings :: "string list" where
  "option_strings =
     [''-h'', ''--help'', ''-p'', ''--latex_packages'', ''-x'', ''--latex_preamble'',
      ''-l'', ''--tikz_libraries'', ''-i'', ''--input_file'', ''-e'', ''--export_file'',
      ''-s'', ''--scale'', ''-b'', ''--border'', ''--wrap'', ''--no-wrap'', ''--debug'']"

definition before_equals :: "string \<Rightarrow> string" where
  "before_equals v = takeWhile (\<lambda>c. c \<noteq> CHR ''='') v"

text \<open>\<^verbatim>\<open>_get_option_tuples\<close>, for a token of at least two characters that begins with
  \<^verbatim>\<open>-\<close>: the option strings the token may abbreviate.\<close>

definition option_tuples :: "string \<Rightarrow> string list" where
  "option_tuples v =
     (if v ! 1 = CHR ''-''
      then filter (\<lambda>opt. prefix (before_equals v) opt) option_strings
      else filter (\<lambda>opt. opt = take 2 v \<or> prefix v opt) option_strings)"

text \<open>The regular expression \<^verbatim>\<open>^-\d+$|^-\d*\.\d+$\<close>; \<^verbatim>\<open>$\<close> also matches before a final
  newline.\<close>

definition negative_number :: "string \<Rightarrow> bool" where
  "negative_number v =
     (case v of
        [] \<Rightarrow> False
      | c # r \<Rightarrow>
          c = CHR ''-'' \<and>
          (let r' = (if r \<noteq> [] \<and> last r = CHR 0x0A then butlast r else r);
               fp = dropWhile is_digit r'
           in (r' \<noteq> [] \<and> fp = []) \<or>
              (fp \<noteq> [] \<and> hd fp = CHR ''.'' \<and> tl fp \<noteq> [] \<and> list_all is_digit (tl fp))))"

datatype token_class = Operand | OptionLike | Ambiguous

definition classify :: "string \<Rightarrow> token_class" where
  "classify v =
     (if v = [] then Operand
      else if hd v \<noteq> CHR ''-'' then Operand
      else if v = ''--'' then OptionLike
      else if v \<in> set option_strings then OptionLike
      else if length v = 1 then Operand
      else if CHR ''='' \<in> set v \<and> before_equals v \<in> set option_strings then OptionLike
      else if 1 < length (option_tuples v) then Ambiguous
      else if length (option_tuples v) = 1 then OptionLike
      else if negative_number v then Operand
      else if CHR '' '' \<in> set v then Operand
      else OptionLike)"

datatype operand = Attached string | Separate string

fun operand_text :: "operand \<Rightarrow> string" where
  "operand_text (Attached v) = v"
| "operand_text (Separate v) = v"

text \<open>The operand an option gets, or exit status 2 (\<^verbatim>\<open>expected one argument\<close>).\<close>

fun take_operand :: "operand \<Rightarrow> error + string" where
  "take_operand (Attached v) = Inr v"
| "take_operand (Separate v) = (if classify v = Operand then Inr v else Inl (SystemExit 2))"

datatype option_arg =
    LatexPackages operand
  | LatexPreamble operand
  | TikzLibraries operand
  | InputFile operand
  | ExportFile operand
  | Scale operand
  | Border operand
  | Wrap
  | NoWrap
  | Debug
  | Help

text \<open>\<^verbatim>\<open>type=float\<close>: a \<^verbatim>\<open>ValueError\<close> of the conversion becomes \<^verbatim>\<open>parser.error\<close>.\<close>

definition scale_type :: "string \<Rightarrow> error + scale_val" where
  "scale_type v =
     (case py_float v of
        None \<Rightarrow> Inl (SystemExit 2)
      | Some x \<Rightarrow> Inr (ScaleFloat x))"

fun take_option :: "option_arg \<Rightarrow> args \<Rightarrow> error + args" where
  "take_option (LatexPackages p) a =
     (case take_operand p of Inl e \<Rightarrow> Inl e | Inr v \<Rightarrow> Inr (a\<lparr>latex_packages := v\<rparr>))"
| "take_option (LatexPreamble p) a =
     (case take_operand p of Inl e \<Rightarrow> Inl e | Inr v \<Rightarrow> Inr (a\<lparr>latex_preamble := v\<rparr>))"
| "take_option (TikzLibraries p) a =
     (case take_operand p of Inl e \<Rightarrow> Inl e | Inr v \<Rightarrow> Inr (a\<lparr>tikz_libraries := v\<rparr>))"
| "take_option (InputFile p) a =
     (case take_operand p of Inl e \<Rightarrow> Inl e | Inr v \<Rightarrow> Inr (a\<lparr>input_file := Some v\<rparr>))"
| "take_option (ExportFile p) a =
     (case take_operand p of Inl e \<Rightarrow> Inl e | Inr v \<Rightarrow> Inr (a\<lparr>export_file := Some v\<rparr>))"
| "take_option (Scale p) a =
     (case take_operand p of
        Inl e \<Rightarrow> Inl e
      | Inr v \<Rightarrow>
          (case scale_type v of Inl e \<Rightarrow> Inl e | Inr x \<Rightarrow> Inr (a\<lparr>scale := x\<rparr>)))"
| "take_option (Border p) a =
     (case take_operand p of Inl e \<Rightarrow> Inl e | Inr v \<Rightarrow> Inr (a\<lparr>border := BorderStr v\<rparr>))"
| "take_option Wrap a = Inr (a\<lparr>wrap_env := True\<rparr>)"
| "take_option NoWrap a = Inr (a\<lparr>wrap_env := False\<rparr>)"
| "take_option Debug a = Inr (a\<lparr>debug_mode := True\<rparr>)"
| "take_option Help a = Inl (SystemExit 0)"

fun take_options :: "option_arg list \<Rightarrow> args \<Rightarrow> error + args" where
  "take_options [] a = Inr a"
| "take_options (x # xs) a =
     (case take_option x a of
        Inl e \<Rightarrow> Inl e
      | Inr a' \<Rightarrow> take_options xs a')"

text \<open>The tokens that follow an option, for the options that take an operand.\<close>

fun separate_tokens :: "option_arg list \<Rightarrow> string list" where
  "separate_tokens [] = []"
| "separate_tokens (LatexPackages (Separate v) # xs) = v # separate_tokens xs"
| "separate_tokens (LatexPreamble (Separate v) # xs) = v # separate_tokens xs"
| "separate_tokens (TikzLibraries (Separate v) # xs) = v # separate_tokens xs"
| "separate_tokens (InputFile (Separate v) # xs) = v # separate_tokens xs"
| "separate_tokens (ExportFile (Separate v) # xs) = v # separate_tokens xs"
| "separate_tokens (Scale (Separate v) # xs) = v # separate_tokens xs"
| "separate_tokens (Border (Separate v) # xs) = v # separate_tokens xs"
| "separate_tokens (x # xs) = separate_tokens xs"

text \<open>\<^verbatim>\<open>parser.parse_args\<close>: all tokens are classified first, then the options are
  processed in order.\<close>

definition parse_args :: "option_arg list \<Rightarrow> error + args" where
  "parse_args line =
     (if list_ex (\<lambda>v. classify v = Ambiguous) (separate_tokens line) then Inl (SystemExit 2)
      else take_options line default_args)"

subsection \<open>\<^verbatim>\<open>tikz\<close>\<close>

definition tikz :: "env \<Rightarrow> option_arg list \<Rightarrow> string \<Rightarrow> world \<Rightarrow> (error + image) \<times> world" where
  "tikz E line cell w =
     (case parse_args line of
        Inl e \<Rightarrow> (Inl e, w)
      | Inr a \<Rightarrow> tikz_args E a cell w)"

subsection \<open>The template with its slots filled\<close>

text \<open>
  The document the specification describes: the fixed skeleton with the border, the
  packages, the libraries and the preamble put in, up to the content slot, and what
  follows the content slot. \<open>assemble\<close> above runs \<^verbatim>\<open>str.format\<close> on the source's
  template; that the two agree is proved below.
\<close>

definition template_head :: "args \<Rightarrow> string" where
  "template_head a =
     ''\<newline>'' @
     BSL # ''documentclass[tikz,border='' @ format_border (border a) @ '']{standalone}\<newline>'' @
     BSL # ''usepackage{tikz,'' @ latex_packages a @ ''}\<newline>'' @
     BSL # ''usetikzlibrary{'' @ tikz_libraries a @ ''}\<newline>'' @
     latex_preamble a @ ''\<newline>'' @
     BSL # ''begin{document}\<newline>''"

definition template_tail :: string where
  "template_tail = ''\<newline>'' @ BSL # ''end{document}\<newline>''"

subsection \<open>Reading a trace\<close>

text \<open>The destinations of the copies, and the command lines of the processes, in the
  order in which they happened.\<close>

fun copy_targets :: "event list \<Rightarrow> path list" where
  "copy_targets [] = []"
| "copy_targets (ECopy s t # es) = t # copy_targets es"
| "copy_targets (e # es) = copy_targets es"

fun calls :: "event list \<Rightarrow> string list list" where
  "calls [] = []"
| "calls (ECall argv # es) = argv # calls es"
| "calls (e # es) = calls es"

subsection \<open>A concrete machine\<close>

text \<open>
  A small world for running the model: \<^verbatim>\<open>/tmp\<close> for temporary files, the notebook in
  \<^verbatim>\<open>/home/u\<close> next to a file \<^verbatim>\<open>in.tex\<close>. \<open>sample_exec\<close> is a compiler that writes the PDF
  into its output directory and a converter that writes the PNG; \<open>idle_exec\<close> is a tool
  that runs and writes nothing.
\<close>

definition sample_exec ::
  "string list \<Rightarrow> (loc \<Rightarrow> node option) \<Rightarrow> error + (loc \<Rightarrow> node option)" where
  "sample_exec argv f =
     (if hd argv = ''xelatex''
      then Inr (f(walk [] (components (argv ! 2)) @ [''tikzfile.pdf''] \<mapsto> File ''%PDF-1.5''))
      else if hd argv = ''magick''
      then Inr (f(walk [] (components (argv ! 5)) \<mapsto> File ''PNG''))
      else Inl (FileNotFoundError (hd argv)))"

definition idle_exec ::
  "string list \<Rightarrow> (loc \<Rightarrow> node option) \<Rightarrow> error + (loc \<Rightarrow> node option)" where
  "idle_exec argv f = Inr f"

definition sample_env :: env where
  "sample_env = \<lparr>gettempdir = ''/tmp'', rand_names = [''a1b2c3d4''], exec = sample_exec\<rparr>"

definition idle_env :: env where
  "idle_env = \<lparr>gettempdir = ''/tmp'', rand_names = [''a1b2c3d4''], exec = idle_exec\<rparr>"

definition sample_world :: world where
  "sample_world =
     \<lparr>fs = [[] \<mapsto> Dir, [''tmp''] \<mapsto> Dir, [''home''] \<mapsto> Dir, [''home'', ''u''] \<mapsto> Dir,
            [''home'', ''u'', ''in.tex''] \<mapsto> File ''x''],
      cwd = ''/home/u'', trace = []\<rparr>"

definition sample_dir :: path where
  "sample_dir = ''/tmp/tmpa1b2c3d4''"

text \<open>The world after \<^verbatim>\<open>mkdtemp\<close>, and after the document \<^verbatim>\<open>doc\<close> has been written.\<close>

definition sample_w0 :: world where
  "sample_w0 =
     log (EMkdir sample_dir)
       (sample_world\<lparr>fs := (fs sample_world)([''tmp'', ''tmpa1b2c3d4''] \<mapsto> Dir)\<rparr>)"

definition sample_w1 :: world where
  "sample_w1 =
     log (EWrite ''/tmp/tmpa1b2c3d4/tikzfile.tex'')
       (sample_w0\<lparr>fs := (fs sample_w0)
          ([''tmp'', ''tmpa1b2c3d4'', ''tikzfile.tex''] \<mapsto> File ''doc'')\<rparr>)"

definition xelatex_argv :: "string list" where
  "xelatex_argv =
     [''xelatex'', ''-output-directory'', ''/tmp/tmpa1b2c3d4'', ''/tmp/tmpa1b2c3d4/tikzfile.tex'']"

text \<open>The world after a compiler that wrote nothing, after one that wrote the PDF, and
  after the PDF has been copied to \<^verbatim>\<open>/home/u/out.pdf\<close>.\<close>

definition idle_w2 :: world where
  "idle_w2 = log (ECall xelatex_argv) sample_w1"

definition sample_w2 :: world where
  "sample_w2 =
     log (ECall xelatex_argv)
       (sample_w1\<lparr>fs := (fs sample_w1)
          ([''tmp'', ''tmpa1b2c3d4'', ''tikzfile.pdf''] \<mapsto> File ''%PDF-1.5'')\<rparr>)"

definition sample_w3 :: world where
  "sample_w3 =
     log (ECopy ''/tmp/tmpa1b2c3d4/tikzfile.pdf'' ''/home/u/out.pdf'')
       (sample_w2\<lparr>fs := (fs sample_w2)([''home'', ''u'', ''out.pdf''] \<mapsto> File ''%PDF-1.5'')\<rparr>)"


subsection \<open>Counting the environment markers in a document\<close>











section \<open>Basic facts about the model\<close>

lemma fs_log [simp]: "fs (log e w) = fs w"
  by (simp add: log_def)

lemma cwd_log [simp]: "cwd (log e w) = cwd w"
  by (simp add: log_def)

lemma trace_log [simp]: "trace (log e w) = trace w @ [e]"
  by (simp add: log_def)

lemma fs_print [simp]: "fs (print s w) = fs w"
  by (simp add: print_def)

lemma cwd_print [simp]: "cwd (print s w) = cwd w"
  by (simp add: print_def)

lemma trace_print [simp]: "trace (print s w) = trace w @ [EPrint s]"
  by (simp add: print_def)

text \<open>Where a path leads depends on the working directory only.\<close>

lemma resolve_cwd: "cwd w' = cwd w \<Longrightarrow> resolve w' p = resolve w p"
  by (simp add: resolve_def)

lemma resolve_log [simp]: "resolve (log e w) p = resolve w p"
  by (simp add: resolve_def)

lemma resolve_fs_update [simp]: "resolve (w\<lparr>fs := f\<rparr>) p = resolve w p"
  by (simp add: resolve_def)

lemma lookup_log [simp]: "lookup (log e w) p = lookup w p"
  by (simp add: lookup_def)

lemma copy_targets_append [simp]:
  "copy_targets (xs @ ys) = copy_targets xs @ copy_targets ys"
  by (induction xs rule: copy_targets.induct) simp_all

lemma calls_append [simp]: "calls (xs @ ys) = calls xs @ calls ys"
  by (induction xs rule: calls.induct) simp_all

text \<open>\<^verbatim>\<open>str.format\<close> on the source's template fills the slots of the skeleton.\<close>

lemma assemble_eq: "assemble a c = Inr (template_head a @ c @ template_tail)"
  by (simp add: assemble_def format_def LATEX_TEMPLATE_def template_head_def template_tail_def)

subsection \<open>What each step does to the world\<close>

lemma mkdtemp_loop_ok:
  "mkdtemp_loop dir ns w = (Inr d, w0) \<Longrightarrow>
     trace w0 = trace w @ [EMkdir d] \<and> cwd w0 = cwd w \<and> fs w0 = (fs w)(resolve w d \<mapsto> Dir)"
  by (induction ns) (auto simp: Let_def split: if_splits)

lemma mkdtemp_loop_fail: "mkdtemp_loop dir ns w = (Inl e, w0) \<Longrightarrow> w0 = w"
  by (induction ns) (auto simp: Let_def split: if_splits)

lemma mkdtemp_ok:
  "mkdtemp E w = (Inr d, w0) \<Longrightarrow>
     trace w0 = trace w @ [EMkdir d] \<and> cwd w0 = cwd w \<and> fs w0 = (fs w)(resolve w d \<mapsto> Dir)"
  unfolding mkdtemp_def by (rule mkdtemp_loop_ok)

lemma mkdtemp_fail: "mkdtemp E w = (Inl e, w0) \<Longrightarrow> w0 = w"
  unfolding mkdtemp_def by (rule mkdtemp_loop_fail)

lemma write_file_ok:
  "write_file p s w = (Inr (), w') \<Longrightarrow>
     trace w' = trace w @ [EWrite p] \<and> cwd w' = cwd w \<and>
     fs w' = (fs w)(resolve w p \<mapsto> File s)"
  by (auto simp: write_file_def split: option.splits)

lemma write_file_fail: "write_file p s w = (Inl e, w') \<Longrightarrow> w' = w"
  by (auto simp: write_file_def split: option.splits)

lemma sh_latex_ok:
  "sh_latex E i out dbg w = (Inr (), w') \<Longrightarrow>
     calls (trace w') = calls (trace w) @ [[''xelatex'', ''-output-directory'', out, i]] \<and>
     copy_targets (trace w') = copy_targets (trace w) \<and>
     cwd w' = cwd w \<and>
     exec E [''xelatex'', ''-output-directory'', out, i] (fs w) = Inr (fs w')"
  by (auto simp: sh_latex_def subprocess_call_def Let_def split: sum.splits if_splits)

lemma sh_latex_fail:
  "sh_latex E i out dbg w = (Inl e, w') \<Longrightarrow>
     calls (trace w') = calls (trace w) \<and> copy_targets (trace w') = copy_targets (trace w) \<and>
     cwd w' = cwd w \<and> fs w' = fs w"
  by (auto simp: sh_latex_def subprocess_call_def Let_def split: sum.splits if_splits)

lemma sh_convert_ok:
  "sh_convert E i out dn dbg w = (Inr (), w') \<Longrightarrow>
     calls (trace w') =
       calls (trace w) @ [[''magick'', ''convert'', ''-density'', str_int dn, i, out]] \<and>
     copy_targets (trace w') = copy_targets (trace w) \<and>
     cwd w' = cwd w \<and>
     exec E [''magick'', ''convert'', ''-density'', str_int dn, i, out] (fs w) = Inr (fs w')"
  by (auto simp: sh_convert_def subprocess_call_def Let_def split: sum.splits if_splits)

lemma sh_convert_fail:
  "sh_convert E i out dn dbg w = (Inl e, w') \<Longrightarrow>
     calls (trace w') = calls (trace w) \<and> copy_targets (trace w') = copy_targets (trace w) \<and>
     cwd w' = cwd w \<and> fs w' = fs w"
  by (auto simp: sh_convert_def subprocess_call_def Let_def split: sum.splits if_splits)

lemma sh_convert_grows:
  "sh_convert E i out dn dbg w = (r, w') \<Longrightarrow>
     \<exists>ev. trace w' = trace w @ ev \<and> copy_targets ev = [] \<and> cwd w' = cwd w"
  by (auto simp: sh_convert_def subprocess_call_def Let_def split: sum.splits if_splits)

lemma read_file_any:
  "read_file p w = (r, w') \<Longrightarrow>
     calls (trace w') = calls (trace w) \<and> copy_targets (trace w') = copy_targets (trace w) \<and>
     cwd w' = cwd w \<and> fs w' = fs w"
  by (auto simp: read_file_def split: option.splits node.splits)

lemma read_file_grows:
  "read_file p w = (r, w') \<Longrightarrow> \<exists>ev. trace w' = trace w @ ev \<and> copy_targets ev = []"
  by (auto simp: read_file_def split: option.splits node.splits)

lemma copyfile_ok:
  "copyfile src dst w = (Inr (), w') \<Longrightarrow>
     trace w' = trace w @ [ECopy src dst] \<and> cwd w' = cwd w \<and>
     (\<exists>b. lookup w src = Some (File b) \<and> fs w' = (fs w)(resolve w dst \<mapsto> File b))"
  by (auto simp: copyfile_def split: if_splits option.splits node.splits)

lemma copyfile_fail: "copyfile src dst w = (Inl e, w') \<Longrightarrow> w' = w"
  by (auto simp: copyfile_def split: if_splits option.splits node.splits)

lemma rmtree_any:
  "rmtree d w = (r, w') \<Longrightarrow>
     calls (trace w') = calls (trace w) \<and> copy_targets (trace w') = copy_targets (trace w) \<and>
     cwd w' = cwd w \<and> (\<forall>l. \<not> below (resolve w d) l \<longrightarrow> fs w' l = fs w l) \<and>
     (trace w' = trace w \<or> trace w' = trace w @ [ERmtree d])"
  by (auto simp: rmtree_def split: option.splits node.splits)

lemma rmtree_dir:
  "isdir w d \<Longrightarrow>
     rmtree d w =
       (Inr (),
        log (ERmtree d) (w\<lparr>fs := (\<lambda>l. if below (resolve w d) l then None else fs w l)\<rparr>))"
  by (simp add: rmtree_def isdir_def)

text \<open>When the compiler has returned and there is no PDF, the \<^verbatim>\<open>try\<close> block is over.\<close>

lemma try_no_pdf:
  assumes "write_file (join d ''tikzfile.tex'') latex w0 = (Inr (), w1)"
      and "sh_latex E (join d ''tikzfile.tex'') d debug w1 = (Inr (), w2)"
      and "\<not> isfile w2 (join d ''tikzfile.pdf'')"
  shows "latex2image_try E latex density export debug d w0 =
           (Inl (Exception ''xelatex didn't produce a PDF file.''), w2)"
  using assms by (simp add: latex2image_try_def Let_def)

text \<open>The working directory is the same all the way to the compiler's return.\<close>

lemma cwd_to_compiler:
  assumes "mkdtemp E w = (Inr d, w0)"
      and "write_file (join d ''tikzfile.tex'') latex w0 = (Inr (), w1)"
      and "sh_latex E (join d ''tikzfile.tex'') d debug w1 = (Inr (), w2)"
  shows "cwd w2 = cwd w"
  using mkdtemp_ok [OF assms(1)] write_file_ok [OF assms(2)] sh_latex_ok [OF assms(3)]
  by simp

subsection \<open>The concrete machine, step by step\<close>

lemmas path_simps =
  resolve_def isabs_def components_def join_def lookup_def open_for_writing_def

lemma sample_mkdtemp: "mkdtemp sample_env sample_world = (Inr sample_dir, sample_w0)"
  by (simp add: mkdtemp_def sample_env_def sample_world_def sample_w0_def sample_dir_def
      path_simps Let_def)

lemma idle_mkdtemp: "mkdtemp idle_env sample_world = (Inr sample_dir, sample_w0)"
  by (simp add: mkdtemp_def idle_env_def sample_world_def sample_w0_def sample_dir_def
      path_simps Let_def)

lemma sample_write:
  "write_file (join sample_dir ''tikzfile.tex'') ''doc'' sample_w0 = (Inr (), sample_w1)"
  by (simp add: write_file_def sample_w0_def sample_w1_def sample_world_def sample_dir_def
      path_simps Let_def)

lemma idle_sh_latex:
  "sh_latex idle_env (join sample_dir ''tikzfile.tex'') sample_dir False sample_w1 =
     (Inr (), idle_w2)"
  by (simp add: sh_latex_def subprocess_call_def idle_env_def idle_exec_def idle_w2_def
      xelatex_argv_def sample_dir_def join_def isabs_def)

lemma sample_sh_latex:
  "sh_latex sample_env (join sample_dir ''tikzfile.tex'') sample_dir False sample_w1 =
     (Inr (), sample_w2)"
  by (simp add: sh_latex_def subprocess_call_def sample_env_def sample_exec_def sample_w2_def
      xelatex_argv_def sample_dir_def path_simps)

lemma idle_w2_dir: "isdir idle_w2 sample_dir"
  by (simp add: isdir_def idle_w2_def sample_w1_def sample_w0_def sample_world_def sample_dir_def
      path_simps)

lemma idle_w2_no_pdf: "\<not> isfile idle_w2 (join sample_dir ''tikzfile.pdf'')"
  by (simp add: isfile_def idle_w2_def sample_w1_def sample_w0_def sample_world_def
      sample_dir_def path_simps)

lemma sample_w2_pdf:
  "lookup sample_w2 (join sample_dir ''tikzfile.pdf'') = Some (File ''%PDF-1.5'')"
  by (simp add: sample_w2_def sample_w1_def sample_w0_def sample_world_def sample_dir_def
      path_simps)

lemma sample_copy:
  "copyfile (join sample_dir ''tikzfile.pdf'') ''/home/u/out.pdf'' sample_w2 = (Inr (), sample_w3)"
  by (simp add: copyfile_def sample_w3_def sample_w2_def sample_w1_def sample_w0_def
      sample_world_def sample_dir_def path_simps Let_def)

lemma sample_dir_loc: "resolve sample_world sample_dir = [''tmp'', ''tmpa1b2c3d4'']"
  by (simp add: sample_dir_def sample_world_def path_simps)

lemma sample_out_loc: "resolve sample_world ''/home/u/out.pdf'' = [''home'', ''u'', ''out.pdf'']"
  by (simp add: sample_world_def path_simps)

section \<open>The claims\<close>

text \<open>
  C1. A render in which the compiler was invoked and returned, and after which the
  temporary directory holds no regular file \<^verbatim>\<open>tikzfile.pdf\<close>, raises the exception
  \<^verbatim>\<open>Exception("xelatex didn't produce a PDF file.")\<close>, and when the call is over neither the
  temporary directory nor anything below it exists. The premises say that the render
  got as far as the compiler (the directory was made, the document was written, the
  process ran and exited) and that the process left the directory itself in place.
\<close>

theorem no_pdf_raises_and_cleans_up:
  assumes mk: "mkdtemp E w = (Inr d, w0)"
      and wr: "write_file (join d ''tikzfile.tex'') latex w0 = (Inr (), w1)"
      and sl: "sh_latex E (join d ''tikzfile.tex'') d debug w1 = (Inr (), w2)"
      and dir: "isdir w2 d"
      and nopdf: "\<not> isfile w2 (join d ''tikzfile.pdf'')"
  shows "fst (latex2image E latex density export debug w) =
           Inl (Exception ''xelatex didn't produce a PDF file.'') \<and>
         (\<forall>l. below (resolve w d) l \<longrightarrow>
            fs (snd (latex2image E latex density export debug w)) l = None)"
proof -
  have "resolve w2 d = resolve w d"
    using cwd_to_compiler [OF mk wr sl] by (rule resolve_cwd)
  then show ?thesis
    using mk try_no_pdf [OF wr sl nopdf] rmtree_dir [OF dir] by (simp add: latex2image_def)
qed

theorem no_pdf_raises_and_cleans_up_witness:
  "mkdtemp idle_env sample_world = (Inr sample_dir, sample_w0) \<and>
   write_file (join sample_dir ''tikzfile.tex'') ''doc'' sample_w0 = (Inr (), sample_w1) \<and>
   sh_latex idle_env (join sample_dir ''tikzfile.tex'') sample_dir False sample_w1 =
     (Inr (), idle_w2) \<and>
   isdir idle_w2 sample_dir \<and>
   \<not> isfile idle_w2 (join sample_dir ''tikzfile.pdf'') \<and>
   fst (latex2image idle_env ''doc'' 300 (Some ''/home/u/out.pdf'') False sample_world) =
     Inl (Exception ''xelatex didn't produce a PDF file.'') \<and>
   fs (snd (latex2image idle_env ''doc'' 300 (Some ''/home/u/out.pdf'') False sample_world))
     [''tmp'', ''tmpa1b2c3d4''] = None \<and>
   fs (snd (latex2image idle_env ''doc'' 300 (Some ''/home/u/out.pdf'') False sample_world))
     [''tmp'', ''tmpa1b2c3d4'', ''tikzfile.tex''] = None"
proof -
  have u1: "below (resolve sample_world sample_dir) [''tmp'', ''tmpa1b2c3d4'']"
    by (simp add: below_def sample_dir_loc)
  have u2: "below (resolve sample_world sample_dir) [''tmp'', ''tmpa1b2c3d4'', ''tikzfile.tex'']"
    by (simp add: below_def sample_dir_loc)
  from no_pdf_raises_and_cleans_up [OF idle_mkdtemp sample_write idle_sh_latex idle_w2_dir
      idle_w2_no_pdf, of 300 "Some ''/home/u/out.pdf''"] u1 u2
  show ?thesis
    using idle_mkdtemp sample_write idle_sh_latex idle_w2_dir idle_w2_no_pdf by blast
qed

text \<open>
  C2. When \<^verbatim>\<open>input_file\<close> names a path (a non-empty string; the empty string is no path
  name, and \<^verbatim>\<open>if args.input_file:\<close> treats it as no option at all) and the path joined to
  the working directory is not a regular file, the call raises the exception
  \<^verbatim>\<open>Exception("tikz: inputfile does not exists in current working directory.")\<close> and
  leaves the world exactly as it found it: no temporary directory, no process, no
  event in the trace.
\<close>

theorem missing_input_file_rejected:
  assumes "input_file a = Some i" and "i \<noteq> []" and "\<not> isfile w (join (cwd w) i)"
  shows "tikz_args E a cell w =
           (Inl (Exception ''tikz: inputfile does not exists in current working directory.''), w)"
  using assms by (simp add: tikz_args_def prepare_latex_def add_input_def Let_def)

theorem missing_input_file_rejected_witness:
  "input_file (default_args\<lparr>input_file := Some ''missing.tex''\<rparr>) = Some ''missing.tex'' \<and>
   ''missing.tex'' \<noteq> [] \<and>
   \<not> isfile sample_world (join (cwd sample_world) ''missing.tex'') \<and>
   tikz_args sample_env (default_args\<lparr>input_file := Some ''missing.tex''\<rparr>) ''x'' sample_world =
     (Inl (Exception ''tikz: inputfile does not exists in current working directory.''),
      sample_world)"
proof -
  have h: "\<not> isfile sample_world (join (cwd sample_world) ''missing.tex'')"
    by (simp add: isfile_def sample_world_def path_simps)
  from missing_input_file_rejected [of "default_args\<lparr>input_file := Some ''missing.tex''\<rparr>"
      "''missing.tex''" sample_world sample_env "''x''"] h
  show ?thesis by simp
qed

text \<open>
  C5. For the cell \<^verbatim>\<open>\draw (0,0) circle (1);\<close> and every option at its default, the
  document handed to the compiler is the template with the wrapped cell as content,
  border 4, and nothing in the package, library and preamble slots.
\<close>

theorem default_document:
  "prepare_latex default_args (BSL # ''draw (0,0) circle (1);'') w =
     Inr (''\<newline>'' @
          BSL # ''documentclass[tikz,border=4]{standalone}\<newline>'' @
          BSL # ''usepackage{tikz,}\<newline>'' @
          BSL # ''usetikzlibrary{}\<newline>'' @
          ''\<newline>'' @
          BSL # ''begin{document}\<newline>'' @
          BSL # ''begin{tikzpicture}'' @ BSL # ''draw (0,0) circle (1);'' @
          BSL # ''end{tikzpicture}\<newline>'' @
          BSL # ''end{document}\<newline>'')"
  by (simp add: prepare_latex_def add_input_def default_args_def wrap_def assemble_def
      format_def LATEX_TEMPLATE_def begin_tikzpicture_def end_tikzpicture_def
      str_int_def str_nat.simps digit_def)

text \<open>
  C6, as stated: with \<^verbatim>\<open>--no-wrap\<close> the content of the document is exactly the raw cell.
  It is not when an input file is given: the \<^verbatim>\<open>\input\<close> directive follows the cell.
\<close>

theorem no_wrap_raw_body_counterexample:
  "\<not> wrap_env (default_args\<lparr>input_file := Some ''in.tex'', wrap_env := False\<rparr>) \<and>
   prepare_latex (default_args\<lparr>input_file := Some ''in.tex'', wrap_env := False\<rparr>) ''x''
       sample_world =
     Inr (template_head (default_args\<lparr>input_file := Some ''in.tex'', wrap_env := False\<rparr>) @
          (''x'' @ BSL # ''input{/home/u/in.tex}'') @ template_tail) \<and>
   prepare_latex (default_args\<lparr>input_file := Some ''in.tex'', wrap_env := False\<rparr>) ''x''
       sample_world \<noteq>
     Inr (template_head (default_args\<lparr>input_file := Some ''in.tex'', wrap_env := False\<rparr>) @
          ''x'' @ template_tail)"
  by (simp add: prepare_latex_def add_input_def default_args_def wrap_def assemble_eq
      sample_world_def path_simps exists_def isfile_def os_name_def input_directive_def)

text \<open>
  C6, amended: with \<^verbatim>\<open>--no-wrap\<close> the content of the document is the cell, followed by
  the \<^verbatim>\<open>\input\<close> directive when an input file is given; no \<^verbatim>\<open>tikzpicture\<close> environment is put
  around it. Without an input file the content is exactly the raw cell.
\<close>

theorem no_wrap_content:
  assumes "\<not> wrap_env a"
  shows "(input_file a = None \<longrightarrow>
            prepare_latex a cell w = Inr (template_head a @ cell @ template_tail)) \<and>
         (\<forall>i. input_file a = Some i \<and> i \<noteq> [] \<and> isfile w (join (cwd w) i) \<longrightarrow>
            prepare_latex a cell w =
              Inr (template_head a @ (cell @ input_directive (join (cwd w) i)) @ template_tail)) \<and>
         (\<forall>body. add_input a cell w = Inr body \<longrightarrow>
            prepare_latex a cell w = Inr (template_head a @ body @ template_tail))"
  using assms
  by (auto simp: prepare_latex_def add_input_def wrap_def assemble_eq os_name_def exists_def
      isfile_def Let_def split: option.splits node.splits if_splits)

theorem no_wrap_content_witness:
  "\<not> wrap_env (default_args\<lparr>wrap_env := False\<rparr>) \<and>
   input_file (default_args\<lparr>wrap_env := False\<rparr>) = None \<and>
   prepare_latex (default_args\<lparr>wrap_env := False\<rparr>) (BSL # ''draw (0,0) circle (1);'')
       sample_world =
     Inr (template_head (default_args\<lparr>wrap_env := False\<rparr>) @
          BSL # ''draw (0,0) circle (1);'' @ template_tail)"
  using no_wrap_content [of "default_args\<lparr>wrap_env := False\<rparr>"
      "BSL # ''draw (0,0) circle (1);''" sample_world]
  by (simp add: default_args_def)

text \<open>
  C9. When the compiler has returned and there is no PDF, the call copies nothing: after
  the compiler the only thing it does is remove the temporary directory. Every location
  outside that directory, the export destination among them, holds what it held when the
  compiler returned, and the trace has no copy that it did not have before the call.
\<close>

theorem no_pdf_no_export:
  assumes mk: "mkdtemp E w = (Inr d, w0)"
      and wr: "write_file (join d ''tikzfile.tex'') latex w0 = (Inr (), w1)"
      and sl: "sh_latex E (join d ''tikzfile.tex'') d debug w1 = (Inr (), w2)"
      and nopdf: "\<not> isfile w2 (join d ''tikzfile.pdf'')"
  shows "(\<forall>l. \<not> below (resolve w d) l \<longrightarrow>
            fs (snd (latex2image E latex density export debug w)) l = fs w2 l) \<and>
         copy_targets (trace (snd (latex2image E latex density export debug w))) =
           copy_targets (trace w) \<and>
         (trace (snd (latex2image E latex density export debug w)) = trace w2 \<or>
          trace (snd (latex2image E latex density export debug w)) = trace w2 @ [ERmtree d])"
proof -
  obtain r w3 where rm: "rmtree d w2 = (r, w3)"
    by (cases "rmtree d w2")
  have fin: "snd (latex2image E latex density export debug w) = w3"
    using mk try_no_pdf [OF wr sl nopdf] rm
    by (simp add: latex2image_def split: sum.splits)
  have "copy_targets (trace w2) = copy_targets (trace w)"
    using mkdtemp_ok [OF mk] write_file_ok [OF wr] sh_latex_ok [OF sl] by simp
  moreover have "resolve w2 d = resolve w d"
    using cwd_to_compiler [OF mk wr sl] by (rule resolve_cwd)
  ultimately show ?thesis
    using rmtree_any [OF rm] fin by simp
qed

theorem no_pdf_no_export_witness:
  "mkdtemp idle_env sample_world = (Inr sample_dir, sample_w0) \<and>
   write_file (join sample_dir ''tikzfile.tex'') ''doc'' sample_w0 = (Inr (), sample_w1) \<and>
   sh_latex idle_env (join sample_dir ''tikzfile.tex'') sample_dir False sample_w1 =
     (Inr (), idle_w2) \<and>
   \<not> isfile idle_w2 (join sample_dir ''tikzfile.pdf'') \<and>
   fs (snd (latex2image idle_env ''doc'' 300 (Some ''/home/u/out.pdf'') False sample_world))
     [''home'', ''u'', ''out.pdf''] = None \<and>
   copy_targets
     (trace (snd (latex2image idle_env ''doc'' 300 (Some ''/home/u/out.pdf'') False
        sample_world))) = []"
proof -
  have u: "\<not> below (resolve sample_world sample_dir) [''home'', ''u'', ''out.pdf'']"
    by (simp add: below_def sample_dir_loc)
  have f: "fs idle_w2 [''home'', ''u'', ''out.pdf''] = None"
    by (simp add: idle_w2_def sample_w1_def sample_w0_def sample_world_def)
  have t: "copy_targets (trace sample_world) = []"
    by (simp add: sample_world_def)
  from no_pdf_no_export [OF idle_mkdtemp sample_write idle_sh_latex idle_w2_no_pdf,
      of 300 "Some ''/home/u/out.pdf''"] u f t
  show ?thesis
    using idle_mkdtemp sample_write idle_sh_latex idle_w2_no_pdf by simp
qed

text \<open>What is left of the \<^verbatim>\<open>try\<close> block once the PDF has been copied: the converter and
  the read of the PNG. Neither copies anything, and the file system at the end is the
  one after the copy or the one the converter left.\<close>

lemma try_after_copy:
  assumes wr: "write_file (join d ''tikzfile.tex'') latex w0 = (Inr (), w1)"
      and sl: "sh_latex E (join d ''tikzfile.tex'') d debug w1 = (Inr (), w2)"
      and pdf: "isfile w2 (join d ''tikzfile.pdf'')"
      and ne: "dst \<noteq> []"
      and cp: "copyfile (join d ''tikzfile.pdf'') dst w2 = (Inr (), w3)"
  shows "\<exists>r wT ev.
           latex2image_try E latex density (Some dst) debug d w0 = (r, wT) \<and>
           trace wT = trace w3 @ ev \<and> copy_targets ev = [] \<and> cwd wT = cwd w3 \<and>
           (fs wT = fs w3 \<or>
            exec E [''magick'', ''convert'', ''-density'', str_int density,
                    join d ''tikzfile.pdf'', join d ''tikzfile.png''] (fs w3) = Inr (fs wT))"
proof -
  obtain rc w4 where sc:
    "sh_convert E (join d ''tikzfile.pdf'') (join d ''tikzfile.png'') density debug w3 = (rc, w4)"
    by (cases "sh_convert E (join d ''tikzfile.pdf'') (join d ''tikzfile.png'') density debug w3")
  obtain rr w5 where rd: "read_file (join d ''tikzfile.png'') w4 = (rr, w5)"
    by (cases "read_file (join d ''tikzfile.png'') w4")
  have t4: "\<exists>ev. trace w4 = trace w3 @ ev \<and> copy_targets ev = [] \<and> cwd w4 = cwd w3"
    using sc by (rule sh_convert_grows)
  have t5: "\<exists>ev. trace w5 = trace w4 @ ev \<and> copy_targets ev = []"
    using rd by (rule read_file_grows)
  have f5: "fs w5 = fs w4" and c5: "cwd w5 = cwd w4"
    using read_file_any [OF rd] by simp_all
  show ?thesis
  proof (cases rc)
    case (Inl e)
    then have "latex2image_try E latex density (Some dst) debug d w0 = (Inl e, w4)"
      using wr sl pdf ne cp sc by (simp add: latex2image_try_def Let_def)
    moreover have "fs w4 = fs w3"
      using sc Inl sh_convert_fail by blast
    ultimately show ?thesis
      using t4 by blast
  next
    case (Inr u)
    then have "latex2image_try E latex density (Some dst) debug d w0 =
                 (case rr of Inl e \<Rightarrow> Inl e | Inr data \<Rightarrow> Inr (Image data), w5)"
      using wr sl pdf ne cp sc rd
      by (simp add: latex2image_try_def Let_def split: sum.splits)
    moreover have "exec E [''magick'', ''convert'', ''-density'', str_int density,
                     join d ''tikzfile.pdf'', join d ''tikzfile.png''] (fs w3) = Inr (fs w5)"
      using sc Inr f5 sh_convert_ok [of E _ _ density debug w3 w4] by simp
    moreover have "\<exists>ev. trace w5 = trace w3 @ ev \<and> copy_targets ev = [] \<and> cwd w5 = cwd w3"
      using t4 t5 c5 by auto
    ultimately show ?thesis
      by blast
  qed
qed

text \<open>
  C7. Let the compiler have returned with a PDF of content \<open>b\<close> in the temporary
  directory, and let an export destination be given.

  When \<^verbatim>\<open>copyfile\<close> succeeds: the destination holds \<open>b\<close> right after it; the copy is the
  first thing in the trace after the compiler returned and the only copy of the call, so
  the converter runs later, on a file system that holds the copy; and when the call is
  over the destination still holds \<open>b\<close>, provided the destination is not inside the
  temporary directory and the converter process does not touch it.

  When \<^verbatim>\<open>copyfile\<close> raises: the call raises the same error, and no converter is run.
\<close>

theorem export_copy:
  assumes mk: "mkdtemp E w = (Inr d, w0)"
      and wr: "write_file (join d ''tikzfile.tex'') latex w0 = (Inr (), w1)"
      and sl: "sh_latex E (join d ''tikzfile.tex'') d debug w1 = (Inr (), w2)"
      and pdf: "lookup w2 (join d ''tikzfile.pdf'') = Some (File b)"
      and ne: "dst \<noteq> []"
  shows "(\<forall>w3. copyfile (join d ''tikzfile.pdf'') dst w2 = (Inr (), w3) \<longrightarrow>
            fs w3 (resolve w dst) = Some (File b) \<and>
            (\<exists>rest. trace (snd (latex2image E latex density (Some dst) debug w)) =
                      trace w2 @ ECopy (join d ''tikzfile.pdf'') dst # rest \<and>
                    copy_targets rest = []) \<and>
            (\<not> below (resolve w d) (resolve w dst) \<and>
             (\<forall>f. exec E [''magick'', ''convert'', ''-density'', str_int density,
                          join d ''tikzfile.pdf'', join d ''tikzfile.png''] (fs w3) = Inr f \<longrightarrow>
                  f (resolve w dst) = Some (File b)) \<longrightarrow>
             fs (snd (latex2image E latex density (Some dst) debug w)) (resolve w dst) =
               Some (File b))) \<and>
         (\<forall>e w3. copyfile (join d ''tikzfile.pdf'') dst w2 = (Inl e, w3) \<and> isdir w2 d \<longrightarrow>
            fst (latex2image E latex density (Some dst) debug w) = Inl e \<and>
            calls (trace (snd (latex2image E latex density (Some dst) debug w))) =
              calls (trace w2))"
proof (intro conjI allI impI)
  fix w3
  assume cp: "copyfile (join d ''tikzfile.pdf'') dst w2 = (Inr (), w3)"
  have c2: "cwd w2 = cwd w"
    by (rule cwd_to_compiler [OF mk wr sl])
  have isf: "isfile w2 (join d ''tikzfile.pdf'')"
    using pdf by (simp add: isfile_def)
  from copyfile_ok [OF cp] pdf
  have t3: "trace w3 = trace w2 @ [ECopy (join d ''tikzfile.pdf'') dst]"
    and f3: "fs w3 = (fs w2)(resolve w2 dst \<mapsto> File b)"
    and c3: "cwd w3 = cwd w2"
    by auto
  have r2: "resolve w2 dst = resolve w dst"
    using c2 by (rule resolve_cwd)
  show "fs w3 (resolve w dst) = Some (File b)"
    using f3 r2 by simp
  from try_after_copy [OF wr sl isf ne cp, of density]
  obtain r wT ev where
    tr: "latex2image_try E latex density (Some dst) debug d w0 = (r, wT)" and
    tT: "trace wT = trace w3 @ ev" and cT: "copy_targets ev = []" and
    cwT: "cwd wT = cwd w3" and
    fT: "fs wT = fs w3 \<or>
         exec E [''magick'', ''convert'', ''-density'', str_int density,
                 join d ''tikzfile.pdf'', join d ''tikzfile.png''] (fs w3) = Inr (fs wT)"
    by blast
  obtain rr wF where rm: "rmtree d wT = (rr, wF)"
    by (cases "rmtree d wT")
  have fin: "snd (latex2image E latex density (Some dst) debug w) = wF"
    using mk tr rm by (simp add: latex2image_def split: sum.splits)
  have rT: "resolve wT d = resolve w d"
    by (rule resolve_cwd) (simp add: cwT c3 c2)
  from rmtree_any [OF rm]
  have tF: "trace wF = trace wT \<or> trace wF = trace wT @ [ERmtree d]"
    and fF: "\<forall>l. \<not> below (resolve w d) l \<longrightarrow> fs wF l = fs wT l"
    using rT by auto
  show "\<exists>rest. trace (snd (latex2image E latex density (Some dst) debug w)) =
                 trace w2 @ ECopy (join d ''tikzfile.pdf'') dst # rest \<and>
               copy_targets rest = []"
    using tF tT t3 cT fin by auto
  assume keep: "\<not> below (resolve w d) (resolve w dst) \<and>
     (\<forall>f. exec E [''magick'', ''convert'', ''-density'', str_int density,
                  join d ''tikzfile.pdf'', join d ''tikzfile.png''] (fs w3) = Inr f \<longrightarrow>
          f (resolve w dst) = Some (File b))"
  have "fs wT (resolve w dst) = Some (File b)"
    using fT f3 r2 keep by auto
  then show "fs (snd (latex2image E latex density (Some dst) debug w)) (resolve w dst) =
               Some (File b)"
    using fF keep fin by simp
next
  fix e w3
  assume a: "copyfile (join d ''tikzfile.pdf'') dst w2 = (Inl e, w3) \<and> isdir w2 d"
  then have w3: "w3 = w2"
    using copyfile_fail by blast
  have isf: "isfile w2 (join d ''tikzfile.pdf'')"
    using pdf by (simp add: isfile_def)
  have tr: "latex2image_try E latex density (Some dst) debug d w0 = (Inl e, w2)"
    using wr sl isf ne a w3 by (simp add: latex2image_try_def Let_def)
  have rm: "rmtree d w2 =
              (Inr (),
               log (ERmtree d) (w2\<lparr>fs := (\<lambda>l. if below (resolve w2 d) l then None else fs w2 l)\<rparr>))"
    using a by (simp add: rmtree_dir)
  show "fst (latex2image E latex density (Some dst) debug w) = Inl e"
    using mk tr rm by (simp add: latex2image_def)
  show "calls (trace (snd (latex2image E latex density (Some dst) debug w))) = calls (trace w2)"
    using mk tr rm by (simp add: latex2image_def)
qed

theorem export_copy_witness:
  "mkdtemp sample_env sample_world = (Inr sample_dir, sample_w0) \<and>
   write_file (join sample_dir ''tikzfile.tex'') ''doc'' sample_w0 = (Inr (), sample_w1) \<and>
   sh_latex sample_env (join sample_dir ''tikzfile.tex'') sample_dir False sample_w1 =
     (Inr (), sample_w2) \<and>
   lookup sample_w2 (join sample_dir ''tikzfile.pdf'') = Some (File ''%PDF-1.5'') \<and>
   copyfile (join sample_dir ''tikzfile.pdf'') ''/home/u/out.pdf'' sample_w2 =
     (Inr (), sample_w3) \<and>
   fs sample_w3 [''home'', ''u'', ''out.pdf''] = Some (File ''%PDF-1.5'') \<and>
   fs (snd (latex2image sample_env ''doc'' 300 (Some ''/home/u/out.pdf'') False sample_world))
     [''home'', ''u'', ''out.pdf''] = Some (File ''%PDF-1.5'')"
proof -
  have u: "\<not> below (resolve sample_world sample_dir) (resolve sample_world ''/home/u/out.pdf'')"
    by (simp add: below_def sample_dir_loc sample_out_loc)
  have conv: "\<forall>f. exec sample_env [''magick'', ''convert'', ''-density'', str_int 300,
                 join sample_dir ''tikzfile.pdf'', join sample_dir ''tikzfile.png'']
                 (fs sample_w3) = Inr f \<longrightarrow>
               f (resolve sample_world ''/home/u/out.pdf'') = Some (File ''%PDF-1.5'')"
    by (auto simp: sample_env_def sample_exec_def sample_w3_def sample_dir_def sample_out_loc
        path_simps)
  have ne: "''/home/u/out.pdf'' \<noteq> []"
    by simp
  from export_copy [OF sample_mkdtemp sample_write sample_sh_latex sample_w2_pdf ne, of 300]
    sample_copy u conv
  have "fs sample_w3 (resolve sample_world ''/home/u/out.pdf'') = Some (File ''%PDF-1.5'') \<and>
        fs (snd (latex2image sample_env ''doc'' 300 (Some ''/home/u/out.pdf'') False
          sample_world)) (resolve sample_world ''/home/u/out.pdf'') = Some (File ''%PDF-1.5'')"
    by blast
  then show ?thesis
    using sample_mkdtemp sample_write sample_sh_latex sample_w2_pdf sample_copy
    by (simp add: sample_out_loc)
qed

subsection \<open>Copies made by a call\<close>

lemma try_copies:
  "latex2image_try E l dn ex dbg d w0 = (r, wT) \<Longrightarrow>
     copy_targets (trace wT) = copy_targets (trace w0) \<or>
     (\<exists>dst. ex = Some dst \<and> dst \<noteq> [] \<and>
        copy_targets (trace wT) = copy_targets (trace w0) @ [dst])"
  by (auto simp: latex2image_try_def Let_def
      split: prod.splits sum.splits option.splits if_splits
      dest!: write_file_ok write_file_fail sh_latex_ok sh_latex_fail copyfile_ok copyfile_fail
        sh_convert_ok sh_convert_fail read_file_any)

lemma latex2image_copies:
  "copy_targets (trace (snd (latex2image E l dn ex dbg w))) = copy_targets (trace w) \<or>
   (\<exists>dst. ex = Some dst \<and> dst \<noteq> [] \<and>
      copy_targets (trace (snd (latex2image E l dn ex dbg w))) = copy_targets (trace w) @ [dst])"
proof (cases "mkdtemp E w")
  case (Pair r0 w0)
  show ?thesis
  proof (cases r0)
    case (Inl e)
    then show ?thesis
      using Pair mkdtemp_fail [of E w e w0] by (simp add: latex2image_def)
  next
    case (Inr d)
    obtain r wT where tr: "latex2image_try E l dn ex dbg d w0 = (r, wT)"
      by (cases "latex2image_try E l dn ex dbg d w0")
    obtain rr wF where rm: "rmtree d wT = (rr, wF)"
      by (cases "rmtree d wT")
    have fin: "snd (latex2image E l dn ex dbg w) = wF"
      using Pair Inr tr rm by (simp add: latex2image_def split: sum.splits)
    have "copy_targets (trace w0) = copy_targets (trace w)"
      using mkdtemp_ok [of E w d w0] Pair Inr by simp
    then show ?thesis
      using try_copies [OF tr] rmtree_any [OF rm] fin by auto
  qed
qed

subsection \<open>Where a joined path leads\<close>

lemma split_from_slash:
  "split_from cur (a @ CHR ''/'' # b) = split_from cur a @ split_from [] b"
  by (induction a arbitrary: cur) auto

lemma components_join:
  assumes "c \<noteq> []" and "\<not> isabs e"
  shows "components (join c e) = components c @ components e"
proof (cases "last c = CHR ''/''")
  case True
  then have c: "c = butlast c @ ''/''"
    using assms(1) by (metis append_butlast_last_id)
  have "components (c @ e) = split_from [] (butlast c) @ components e"
    using split_from_slash [of "[]" "butlast c" e] c
    by (metis append_Cons append_Nil append_assoc components_def)
  moreover have "components c = split_from [] (butlast c)"
    using split_from_slash [of "[]" "butlast c" "[]"] c
    by (metis append_Nil2 components_def split_from.simps(1))
  ultimately show ?thesis
    using True assms by (simp add: join_def)
next
  case False
  then show ?thesis
    using assms split_from_slash [of "[]" c e] by (simp add: join_def components_def)
qed

lemma walk_append: "walk l (xs @ ys) = walk (walk l xs) ys"
  by (induction xs arbitrary: l) auto

lemma walk_down: "''..'' \<notin> set xs \<Longrightarrow> prefix l (walk l xs)"
proof (induction xs arbitrary: l)
  case Nil
  then show ?case by simp
next
  case (Cons x xs)
  then show ?case
    by (auto dest: append_prefixD)
qed

lemma isabs_join: "isabs c \<Longrightarrow> isabs (join c e)"
  by (auto simp: isabs_def join_def)

lemma relative_lands_below:
  assumes "isabs (cwd w)" and "\<not> isabs e" and "''..'' \<notin> set (components e)"
  shows "below (resolve w (cwd w)) (resolve w (join (cwd w) e))"
proof -
  have ne: "cwd w \<noteq> []"
    using assms(1) by (simp add: isabs_def)
  have "resolve w (join (cwd w) e) = walk (walk [] (components (cwd w))) (components e)"
    using isabs_join [OF assms(1)] components_join [OF ne assms(2)]
    by (simp add: resolve_def walk_append)
  then show ?thesis
    using assms(1) walk_down [OF assms(3)] by (simp add: below_def resolve_def)
qed

lemmas run_simps =
  tikz_args_def prepare_latex_def add_input_def default_args_def export_path_def
  latex2image_def latex2image_try_def mkdtemp_def write_file_def sh_latex_def sh_convert_def
  subprocess_call_def copyfile_def read_file_def rmtree_def isfile_def below_def Let_def

text \<open>
  C10, as stated: the export destination is the working directory joined with the value
  of \<^verbatim>\<open>export_file\<close>, so a relative export path always lands under the working
  directory. The first half holds. The second does not: joining does not remove \<^verbatim>\<open>..\<close>,
  and with \<^verbatim>\<open>-e ../out.pdf\<close> in \<^verbatim>\<open>/home/u\<close> the PDF is copied to \<^verbatim>\<open>/home/out.pdf\<close>.
\<close>

theorem relative_export_counterexample:
  "\<not> isabs ''../out.pdf'' \<and>
   export_path (default_args\<lparr>export_file := Some ''../out.pdf''\<rparr>) sample_world =
     Some ''/home/u/../out.pdf'' \<and>
   resolve sample_world ''/home/u/../out.pdf'' = [''home'', ''out.pdf''] \<and>
   resolve sample_world (cwd sample_world) = [''home'', ''u''] \<and>
   \<not> below (resolve sample_world (cwd sample_world))
       (resolve sample_world ''/home/u/../out.pdf'') \<and>
   fs (snd (tikz_args sample_env (default_args\<lparr>export_file := Some ''../out.pdf''\<rparr>) ''x''
          sample_world)) [''home'', ''out.pdf''] = Some (File ''%PDF-1.5'') \<and>
   fs sample_world [''home'', ''out.pdf''] = None"
  by (simp add: run_simps assemble_eq sample_env_def sample_world_def sample_exec_def path_simps)

text \<open>
  C10, amended: for every request with \<^verbatim>\<open>export_file\<close> set (a non-empty string), the
  export destination is the working directory joined with that value, and the only copy
  the call makes, if it makes one, goes there. A relative export path without a \<^verbatim>\<open>..\<close>
  component lands under the working directory.
\<close>

theorem export_destination:
  assumes "export_file a = Some e" and "e \<noteq> []"
  shows "export_path a w = Some (join (cwd w) e) \<and>
         (copy_targets (trace (snd (tikz_args E a cell w))) = copy_targets (trace w) \<or>
          copy_targets (trace (snd (tikz_args E a cell w))) =
            copy_targets (trace w) @ [join (cwd w) e]) \<and>
         (isabs (cwd w) \<and> \<not> isabs e \<and> ''..'' \<notin> set (components e) \<longrightarrow>
            below (resolve w (cwd w)) (resolve w (join (cwd w) e)))"
proof (intro conjI)
  show ex: "export_path a w = Some (join (cwd w) e)"
    using assms by (simp add: export_path_def)
  show "copy_targets (trace (snd (tikz_args E a cell w))) = copy_targets (trace w) \<or>
        copy_targets (trace (snd (tikz_args E a cell w))) =
          copy_targets (trace w) @ [join (cwd w) e]"
  proof (cases "prepare_latex a cell w")
    case (Inl x)
    then show ?thesis
      by (simp add: tikz_args_def)
  next
    case (Inr latex)
    show ?thesis
    proof (cases "density_of (scale a)")
      case (Inl x)
      then show ?thesis
        using Inr by (simp add: tikz_args_def Let_def)
    next
      case dn: (Inr density)
      show ?thesis
      proof (cases "debug_mode a")
        case True
        then show ?thesis
          using Inr dn ex
            latex2image_copies [of E latex density "Some (join (cwd w) e)" True "print latex w"]
          by (auto simp: tikz_args_def Let_def)
      next
        case False
        then show ?thesis
          using Inr dn ex
            latex2image_copies [of E latex density "Some (join (cwd w) e)" False w]
          by (auto simp: tikz_args_def Let_def)
      qed
    qed
  qed
  show "isabs (cwd w) \<and> \<not> isabs e \<and> ''..'' \<notin> set (components e) \<longrightarrow>
          below (resolve w (cwd w)) (resolve w (join (cwd w) e))"
    using relative_lands_below by blast
qed

theorem export_destination_witness:
  "export_file (default_args\<lparr>export_file := Some ''out.pdf''\<rparr>) = Some ''out.pdf'' \<and>
   ''out.pdf'' \<noteq> [] \<and>
   isabs (cwd sample_world) \<and> \<not> isabs ''out.pdf'' \<and> ''..'' \<notin> set (components ''out.pdf'') \<and>
   export_path (default_args\<lparr>export_file := Some ''out.pdf''\<rparr>) sample_world =
     Some (join (cwd sample_world) ''out.pdf'') \<and>
   join (cwd sample_world) ''out.pdf'' = ''/home/u/out.pdf'' \<and>
   below (resolve sample_world (cwd sample_world))
     (resolve sample_world (join (cwd sample_world) ''out.pdf''))"
proof -
  have h: "isabs (cwd sample_world) \<and> \<not> isabs ''out.pdf'' \<and>
           ''..'' \<notin> set (components ''out.pdf'')"
    by (simp add: sample_world_def isabs_def components_def)
  have j: "join (cwd sample_world) ''out.pdf'' = ''/home/u/out.pdf''"
    by (simp add: sample_world_def join_def isabs_def)
  from export_destination [of "default_args\<lparr>export_file := Some ''out.pdf''\<rparr>" "''out.pdf''"
      sample_world sample_env "''x''"] h
  show ?thesis
    using j by simp
qed

subsection \<open>Processes run by a call\<close>

lemma try_calls:
  "latex2image_try E l dn ex dbg d w0 = (r, wT) \<Longrightarrow>
     calls (trace wT) = calls (trace w0) \<or>
     calls (trace wT) =
       calls (trace w0) @ [[''xelatex'', ''-output-directory'', d, join d ''tikzfile.tex'']] \<or>
     calls (trace wT) =
       calls (trace w0) @
         [[''xelatex'', ''-output-directory'', d, join d ''tikzfile.tex''],
          [''magick'', ''convert'', ''-density'', str_int dn, join d ''tikzfile.pdf'',
           join d ''tikzfile.png'']]"
  by (auto simp: latex2image_try_def Let_def
      split: prod.splits sum.splits option.splits if_splits
      dest!: write_file_ok write_file_fail sh_latex_ok sh_latex_fail copyfile_ok copyfile_fail
        sh_convert_ok sh_convert_fail read_file_any)

lemma latex2image_calls:
  "\<exists>d. calls (trace (snd (latex2image E l dn ex dbg w))) = calls (trace w) \<or>
       calls (trace (snd (latex2image E l dn ex dbg w))) =
         calls (trace w) @ [[''xelatex'', ''-output-directory'', d, join d ''tikzfile.tex'']] \<or>
       calls (trace (snd (latex2image E l dn ex dbg w))) =
         calls (trace w) @
           [[''xelatex'', ''-output-directory'', d, join d ''tikzfile.tex''],
            [''magick'', ''convert'', ''-density'', str_int dn, join d ''tikzfile.pdf'',
             join d ''tikzfile.png'']]"
proof (cases "mkdtemp E w")
  case (Pair r0 w0)
  show ?thesis
  proof (cases r0)
    case (Inl e)
    then show ?thesis
      using Pair mkdtemp_fail [of E w e w0] by (simp add: latex2image_def)
  next
    case (Inr d)
    obtain r wT where tr: "latex2image_try E l dn ex dbg d w0 = (r, wT)"
      by (cases "latex2image_try E l dn ex dbg d w0")
    obtain rr wF where rm: "rmtree d wT = (rr, wF)"
      by (cases "rmtree d wT")
    have fin: "snd (latex2image E l dn ex dbg w) = wF"
      using Pair Inr tr rm by (simp add: latex2image_def split: sum.splits)
    have "calls (trace w0) = calls (trace w)"
      using mkdtemp_ok [of E w d w0] Pair Inr by simp
    then have "calls (trace wF) = calls (trace w) \<or>
       calls (trace wF) =
         calls (trace w) @ [[''xelatex'', ''-output-directory'', d, join d ''tikzfile.tex'']] \<or>
       calls (trace wF) =
         calls (trace w) @
           [[''xelatex'', ''-output-directory'', d, join d ''tikzfile.tex''],
            [''magick'', ''convert'', ''-density'', str_int dn, join d ''tikzfile.pdf'',
             join d ''tikzfile.png'']]"
      using try_calls [OF tr] rmtree_any [OF rm] by auto
    then show ?thesis
      using fin by auto
  qed
qed

subsection \<open>Rounding keeps the sign\<close>

lemma pow2_pos: "0 < pow2 k"
  by (simp add: pow2_def)

lemma round_half_even_nonneg: "0 \<le> x \<Longrightarrow> 0 \<le> round_half_even x"
  by (auto simp: round_half_even_def Let_def)

lemma round_double_pos:
  assumes "0 < q"
  shows "round_double q = PosInf \<or> (\<exists>v. round_double q = Finite v \<and> 0 \<le> v)"
proof -
  let ?e = "max (floor_log2 \<bar>q\<bar> - 52) (- 1074)"
  let ?v = "of_int (round_half_even (\<bar>q\<bar> / pow2 ?e)) * pow2 ?e"
  have "0 \<le> \<bar>q\<bar> / pow2 ?e"
    using pow2_pos [of ?e] by simp
  then have "0 \<le> round_half_even (\<bar>q\<bar> / pow2 ?e)"
    by (rule round_half_even_nonneg)
  then have "0 \<le> ?v"
    using pow2_pos [of ?e] by simp
  then show ?thesis
    using assms by (auto simp: round_double_def Let_def)
qed

lemma density_positive:
  assumes "float_positive s"
  shows "(\<exists>dn. density_of (ScaleFloat s) = Inr dn \<and> 0 \<le> dn) \<or>
         (float_mul s (Finite 300) = PosInf \<and>
          density_of (ScaleFloat s) =
            Inl (OverflowError ''cannot convert float infinity to integer''))"
proof (cases s)
  case (Finite q)
  then have "0 < q * 300"
    using assms by simp
  from round_double_pos [OF this] Finite show ?thesis
    by auto
next
  case PosInf
  then show ?thesis by simp
next
  case NegInf
  then show ?thesis using assms by simp
next
  case NaN
  then show ?thesis using assms by simp
qed

subsection \<open>Rounding overflows from \<open>2\<^sup>1\<^sup>0\<^sup>2\<^sup>4\<close> on\<close>

lemma pow2_powi: "pow2 k = 2 powi k"
proof (cases "0 \<le> k")
  case True
  then show ?thesis
    by (simp add: pow2_def power_int_def)
next
  case False
  then show ?thesis
    by (simp add: pow2_def power_int_def inverse_eq_divide power_one_over)
qed

lemma pow2_add: "pow2 (i + j) = pow2 i * pow2 j"
  by (simp add: pow2_powi power_int_add)

lemma pow2_mono: "i \<le> j \<Longrightarrow> pow2 i \<le> pow2 j"
  by (simp add: pow2_powi power_int_increasing)

lemma pow2_nat: "0 \<le> k \<Longrightarrow> pow2 k = of_int (2 ^ nat k)"
  by (simp add: pow2_def)

lemma floor_log2_le:
  assumes "0 < a"
  shows "pow2 (floor_log2 a) \<le> a"
proof -
  obtain n d where q: "quotient_of a = (n, d)"
    by (cases "quotient_of a")
  have d: "0 < d"
    using q by (rule quotient_of_denom_pos)
  have a: "a = of_int n / of_int d"
    using q by (rule quotient_of_div)
  have n: "0 < n"
    using assms a d by (simp add: zero_less_divide_iff)
  let ?k = "bitlen n - bitlen d"
  show ?thesis
  proof (cases "a < pow2 ?k")
    case False
    then show ?thesis
      using q by (simp add: floor_log2_def Let_def)
  next
    case True
    have bn: "1 \<le> bitlen n" and bd: "1 \<le> bitlen d"
      using n d by (auto simp: bitlen_alt_def)
    have "(2::int) ^ nat (bitlen n - 1) \<le> n"
      using bitlen_bounds [OF n] by simp
    then have "(of_int (2 ^ nat (bitlen n - 1)) :: rat) \<le> of_int n"
      by (simp only: of_int_le_iff)
    then have ln: "pow2 (bitlen n - 1) \<le> of_int n"
      using bn by (simp add: pow2_nat)
    have "d < 2 ^ nat (bitlen d)"
      using bitlen_bounds [OF d] by simp
    then have "(of_int d :: rat) < of_int (2 ^ nat (bitlen d))"
      by (simp only: of_int_less_iff)
    then have ld: "of_int d \<le> pow2 (bitlen d)"
      using bd by (simp add: pow2_nat)
    have "pow2 (?k - 1) * of_int d \<le> pow2 (?k - 1) * pow2 (bitlen d)"
      using ld pow2_pos [of "?k - 1"] by (simp add: mult_left_mono)
    also have "\<dots> = pow2 (bitlen n - 1)"
      using pow2_add [of "?k - 1" "bitlen d"] by simp
    also have "\<dots> \<le> of_int n"
      by (rule ln)
    finally have "pow2 (?k - 1) \<le> of_int n / of_int d"
      using d by (simp add: pos_le_divide_eq)
    then show ?thesis
      using True q a by (simp add: floor_log2_def Let_def)
  qed
qed

lemma round_half_even_ge: "of_int N \<le> x \<Longrightarrow> N \<le> round_half_even x"
proof -
  assume "of_int N \<le> x"
  then have "N \<le> \<lfloor>x\<rfloor>"
    by (simp add: le_floor_iff)
  then show ?thesis
    by (auto simp: round_half_even_def Let_def)
qed

lemma round_double_overflow:
  assumes "pow2 1024 \<le> q"
  shows "round_double q = PosInf"
proof -
  have q: "0 < q"
    using assms pow2_pos [of 1024] by simp
  let ?e = "max (floor_log2 \<bar>q\<bar> - 52) (- 1074)"
  let ?m = "round_half_even (\<bar>q\<bar> / pow2 ?e)"
  have aq: "\<bar>q\<bar> = q"
    using q by simp
  have "pow2 1024 \<le> of_int ?m * pow2 ?e"
  proof (cases "?e \<le> 1024")
    case True
    let ?N = "(2::int) ^ nat (1024 - ?e)"
    have N: "of_int ?N * pow2 ?e = pow2 1024"
      using True pow2_add [of "1024 - ?e" ?e] pow2_nat [of "1024 - ?e"] by simp
    then have "of_int ?N \<le> \<bar>q\<bar> / pow2 ?e"
      using assms aq pow2_pos [of ?e] by (simp add: pos_le_divide_eq)
    then have "?N \<le> ?m"
      by (rule round_half_even_ge)
    then have "(of_int ?N :: rat) \<le> of_int ?m"
      by (simp only: of_int_le_iff)
    then have "of_int ?N * pow2 ?e \<le> of_int ?m * pow2 ?e"
      using pow2_pos [of ?e] by (simp add: mult_right_mono)
    then show ?thesis
      using N by simp
  next
    case False
    then have e: "?e = floor_log2 q - 52"
      using aq by simp
    have "pow2 52 * pow2 ?e = pow2 (floor_log2 q)"
      using pow2_add [of 52 ?e] e by simp
    also have "\<dots> \<le> q"
      using q by (rule floor_log2_le)
    finally have "pow2 52 \<le> \<bar>q\<bar> / pow2 ?e"
      using aq pow2_pos [of ?e] by (simp add: pos_le_divide_eq)
    then have "of_int (2 ^ 52) \<le> \<bar>q\<bar> / pow2 ?e"
      by (simp add: pow2_def)
    then have "2 ^ 52 \<le> ?m"
      by (rule round_half_even_ge)
    then have "1 \<le> ?m"
      by simp
    then have "(1::rat) \<le> of_int ?m"
      by (simp only: of_int_1_le_iff)
    then have "pow2 ?e \<le> of_int ?m * pow2 ?e"
      using pow2_pos [of ?e] by (simp add: mult_right_mono)
    moreover have "pow2 1024 \<le> pow2 ?e"
      using False by (intro pow2_mono) simp
    ultimately show ?thesis
      by simp
  qed
  then show ?thesis
    using q by (simp add: round_double_def Let_def)
qed

lemma big_scale: "density_of (ScaleFloat (Finite (2 ^ 1020))) =
   Inl (OverflowError ''cannot convert float infinity to integer'')"
proof -
  have "(2::rat) ^ 1024 = 2 ^ 1020 * 2 ^ 4"
    by (simp only: power_add [symmetric]) simp
  then have "pow2 1024 \<le> 2 ^ 1020 * 300"
    by (simp add: pow2_def)
  then have "round_double (2 ^ 1020 * 300) = PosInf"
    by (rule round_double_overflow)
  then show ?thesis
    by simp
qed

lemma density_half: "density_of (ScaleFloat (Finite (1 / 2))) = Inr 150"
  by code_simp

lemma str_150: "str_int 150 = ''150''"
  by code_simp

text \<open>
  C3, as stated: the density passed to the converter is \<^verbatim>\<open>int(s * 300)\<close>, and for every
  positive \<open>s\<close> it is a non-negative integer. The first half holds. The second does not
  for a positive \<open>s\<close> whose product with 300 is infinite: \<^verbatim>\<open>-s inf\<close> is accepted by
  \<^verbatim>\<open>float\<close>, \<^verbatim>\<open>inf\<close> is positive, and \<^verbatim>\<open>int(inf)\<close> raises \<^verbatim>\<open>OverflowError\<close>: there is no density
  and nothing is rendered. The same happens for the finite scale \<open>2\<^sup>1\<^sup>0\<^sup>2\<^sup>0\<close> (about
  \<^verbatim>\<open>1.1e307\<close>), whose product with 300 overflows.
\<close>

theorem positive_scale_counterexample:
  "parse_args [Scale (Separate ''inf'')] = Inr (default_args\<lparr>scale := ScaleFloat PosInf\<rparr>) \<and>
   float_positive PosInf \<and>
   density_of (ScaleFloat PosInf) =
     Inl (OverflowError ''cannot convert float infinity to integer'') \<and>
   tikz sample_env [Scale (Separate ''inf'')] ''x'' sample_world =
     (Inl (OverflowError ''cannot convert float infinity to integer''), sample_world) \<and>
   float_positive (Finite (2 ^ 1020)) \<and>
   density_of (ScaleFloat (Finite (2 ^ 1020))) =
     Inl (OverflowError ''cannot convert float infinity to integer'')"
proof -
  have p: "py_float ''inf'' = Some PosInf"
    by code_simp
  have f: "float_positive (Finite (2 ^ 1020))"
    by simp
  have "parse_args [Scale (Separate ''inf'')] = Inr (default_args\<lparr>scale := ScaleFloat PosInf\<rparr>) \<and>
   float_positive PosInf \<and>
   density_of (ScaleFloat PosInf) =
     Inl (OverflowError ''cannot convert float infinity to integer'') \<and>
   tikz sample_env [Scale (Separate ''inf'')] ''x'' sample_world =
     (Inl (OverflowError ''cannot convert float infinity to integer''), sample_world)"
    by (simp add: tikz_def parse_args_def classify_def scale_type_def p tikz_args_def
        prepare_latex_def add_input_def assemble_eq default_args_def)
  then show ?thesis
    using f big_scale by (elim conjE) (intro conjI; assumption)
qed

text \<open>
  C3, amended: whenever the converter is run, the density on its command line is
  \<^verbatim>\<open>int(args.scale * 300)\<close>; when that conversion raises, the call raises the same error
  and runs no process. For every positive \<open>s\<close>, either \<open>s * 300\<close> is finite and the density
  is a non-negative integer, or \<open>s * 300\<close> is infinite and the conversion raises
  \<^verbatim>\<open>OverflowError\<close>.
\<close>

theorem scale_density:
  "(\<forall>dn. density_of (scale a) = Inr dn \<longrightarrow>
      (\<exists>d. calls (trace (snd (tikz_args E a cell w))) = calls (trace w) \<or>
           calls (trace (snd (tikz_args E a cell w))) =
             calls (trace w) @ [[''xelatex'', ''-output-directory'', d, join d ''tikzfile.tex'']] \<or>
           calls (trace (snd (tikz_args E a cell w))) =
             calls (trace w) @
               [[''xelatex'', ''-output-directory'', d, join d ''tikzfile.tex''],
                [''magick'', ''convert'', ''-density'', str_int dn, join d ''tikzfile.pdf'',
                 join d ''tikzfile.png'']])) \<and>
   (\<forall>e latex. density_of (scale a) = Inl e \<and> prepare_latex a cell w = Inr latex \<longrightarrow>
      fst (tikz_args E a cell w) = Inl e \<and>
      calls (trace (snd (tikz_args E a cell w))) = calls (trace w) \<and>
      fs (snd (tikz_args E a cell w)) = fs w) \<and>
   (\<forall>s. scale a = ScaleFloat s \<and> float_positive s \<longrightarrow>
      (\<exists>dn. density_of (scale a) = Inr dn \<and> 0 \<le> dn) \<or>
      (float_mul s (Finite 300) = PosInf \<and>
       density_of (scale a) = Inl (OverflowError ''cannot convert float infinity to integer'')))"
proof (intro conjI allI impI)
  fix dn
  assume dn: "density_of (scale a) = Inr dn"
  show "\<exists>d. calls (trace (snd (tikz_args E a cell w))) = calls (trace w) \<or>
           calls (trace (snd (tikz_args E a cell w))) =
             calls (trace w) @ [[''xelatex'', ''-output-directory'', d, join d ''tikzfile.tex'']] \<or>
           calls (trace (snd (tikz_args E a cell w))) =
             calls (trace w) @
               [[''xelatex'', ''-output-directory'', d, join d ''tikzfile.tex''],
                [''magick'', ''convert'', ''-density'', str_int dn, join d ''tikzfile.pdf'',
                 join d ''tikzfile.png'']]"
  proof (cases "prepare_latex a cell w")
    case (Inl x)
    then show ?thesis
      by (simp add: tikz_args_def)
  next
    case (Inr latex)
    show ?thesis
    proof (cases "debug_mode a")
      case True
      then show ?thesis
        using Inr dn latex2image_calls [of E latex dn "export_path a w" True "print latex w"]
        by (simp add: tikz_args_def Let_def)
    next
      case False
      then show ?thesis
        using Inr dn latex2image_calls [of E latex dn "export_path a w" False w]
        by (simp add: tikz_args_def Let_def)
    qed
  qed
next
  fix e latex
  assume h: "density_of (scale a) = Inl e \<and> prepare_latex a cell w = Inr latex"
  show "fst (tikz_args E a cell w) = Inl e"
    using h by (simp add: tikz_args_def Let_def)
  show "calls (trace (snd (tikz_args E a cell w))) = calls (trace w)"
    using h by (simp add: tikz_args_def Let_def)
  show "fs (snd (tikz_args E a cell w)) = fs w"
    using h by (simp add: tikz_args_def Let_def)
next
  fix s
  assume "scale a = ScaleFloat s \<and> float_positive s"
  then show "(\<exists>dn. density_of (scale a) = Inr dn \<and> 0 \<le> dn) \<or>
      (float_mul s (Finite 300) = PosInf \<and>
       density_of (scale a) = Inl (OverflowError ''cannot convert float infinity to integer''))"
    using density_positive [of s] by simp
qed

theorem scale_density_witness:
  "scale (default_args\<lparr>scale := ScaleFloat (Finite (1 / 2))\<rparr>) = ScaleFloat (Finite (1 / 2)) \<and>
   float_positive (Finite (1 / 2)) \<and>
   density_of (scale (default_args\<lparr>scale := ScaleFloat (Finite (1 / 2))\<rparr>)) = Inr 150 \<and>
   calls (trace (snd (tikz_args sample_env (default_args\<lparr>scale := ScaleFloat (Finite (1 / 2))\<rparr>)
      ''x'' sample_world))) =
     [[''xelatex'', ''-output-directory'', ''/tmp/tmpa1b2c3d4'', ''/tmp/tmpa1b2c3d4/tikzfile.tex''],
      [''magick'', ''convert'', ''-density'', ''150'', ''/tmp/tmpa1b2c3d4/tikzfile.pdf'',
       ''/tmp/tmpa1b2c3d4/tikzfile.png'']]"
proof -
  have run: "calls (trace (snd (tikz_args sample_env
      (default_args\<lparr>scale := ScaleFloat (Finite (1 / 2))\<rparr>) ''x'' sample_world))) =
     [[''xelatex'', ''-output-directory'', ''/tmp/tmpa1b2c3d4'', ''/tmp/tmpa1b2c3d4/tikzfile.tex''],
      [''magick'', ''convert'', ''-density'', ''150'', ''/tmp/tmpa1b2c3d4/tikzfile.pdf'',
       ''/tmp/tmpa1b2c3d4/tikzfile.png'']]"
    by (simp add: tikz_args_def prepare_latex_def add_input_def default_args_def export_path_def
        density_half str_150 assemble_eq sample_env_def sample_world_def sample_exec_def
        latex2image_def latex2image_try_def mkdtemp_def write_file_def sh_latex_def
        sh_convert_def subprocess_call_def copyfile_def read_file_def rmtree_def isfile_def
        below_def Let_def path_simps del: density_of.simps)
  have sc: "scale (default_args\<lparr>scale := ScaleFloat (Finite (1 / 2))\<rparr>) =
              ScaleFloat (Finite (1 / 2)) \<and> float_positive (Finite (1 / 2))"
    by simp
  from scale_density [of "default_args\<lparr>scale := ScaleFloat (Finite (1 / 2))\<rparr>" sample_env
      "''x''" sample_world] sc
  have "(\<exists>dn. density_of (scale (default_args\<lparr>scale := ScaleFloat (Finite (1 / 2))\<rparr>)) = Inr dn \<and>
           0 \<le> dn) \<or>
        (float_mul (Finite (1 / 2)) (Finite 300) = PosInf \<and>
         density_of (scale (default_args\<lparr>scale := ScaleFloat (Finite (1 / 2))\<rparr>)) =
           Inl (OverflowError ''cannot convert float infinity to integer''))"
    by blast
  then show ?thesis
    using run density_half sc by (simp del: density_of.simps)
qed

subsection \<open>Parsing the scale\<close>

lemma take_operand_text: "take_operand p = Inr v \<Longrightarrow> v = operand_text p"
  by (cases p) (auto split: if_splits)

lemma take_option_scale:
  "take_option (Scale p) a0 = Inr a \<Longrightarrow> py_float (operand_text p) \<noteq> None"
  by (auto simp: scale_type_def split: sum.splits option.splits dest: take_operand_text)

lemma take_options_scale:
  "take_options line a0 = Inr a \<Longrightarrow> Scale p \<in> set line \<Longrightarrow> py_float (operand_text p) \<noteq> None"
proof (induction line arbitrary: a0)
  case Nil
  then show ?case by simp
next
  case (Cons x xs)
  show ?case
  proof (cases "take_option x a0")
    case (Inl e)
    then show ?thesis
      using Cons.prems by simp
  next
    case (Inr a1)
    show ?thesis
    proof (cases "x = Scale p")
      case True
      then show ?thesis
        using Inr take_option_scale by blast
    next
      case False
      then have "Scale p \<in> set xs"
        using Cons.prems by simp
      moreover have "take_options xs a1 = Inr a"
        using Cons.prems Inr by simp
      ultimately show ?thesis
        by (rule Cons.IH [rotated])
    qed
  qed
qed

lemma take_operand_exit: "take_operand p = Inl e \<Longrightarrow> e = SystemExit 2"
  by (cases p) (auto split: if_splits)

lemma take_option_exit: "take_option x a0 = Inl e \<Longrightarrow> x \<noteq> Help \<Longrightarrow> e = SystemExit 2"
  by (cases x) (auto simp: scale_type_def split: sum.splits option.splits dest: take_operand_exit)

lemma take_options_exit:
  "take_options line a0 = Inl e \<Longrightarrow> Help \<notin> set line \<Longrightarrow> e = SystemExit 2"
proof (induction line arbitrary: a0)
  case Nil
  then show ?case by simp
next
  case (Cons x xs)
  show ?case
  proof (cases "take_option x a0")
    case (Inl e')
    then have "e' = e"
      using Cons.prems by simp
    then show ?thesis
      using Inl Cons.prems take_option_exit by auto
  next
    case (Inr a1)
    then have "take_options xs a1 = Inl e"
      using Cons.prems by simp
    moreover have "Help \<notin> set xs"
      using Cons.prems by simp
    ultimately show ?thesis
      by (rule Cons.IH)
  qed
qed

lemma parse_args_exit: "parse_args line = Inl e \<Longrightarrow> Help \<notin> set line \<Longrightarrow> e = SystemExit 2"
  by (auto simp: parse_args_def split: if_splits dest: take_options_exit)

lemma parse_args_scale:
  "parse_args line = Inr a \<Longrightarrow> Scale p \<in> set line \<Longrightarrow> py_float (operand_text p) \<noteq> None"
  by (auto simp: parse_args_def split: if_splits dest: take_options_scale)

lemma scale_accepted:
  "take_operand p = Inr v \<Longrightarrow> py_float v = Some x \<Longrightarrow>
     parse_args [Scale p] = Inr (default_args\<lparr>scale := ScaleFloat x\<rparr>)"
  by (cases p) (auto simp: parse_args_def scale_type_def split: if_splits)

lemma float_0: "py_float ''0'' = Some (Finite 0)"
  by code_simp

lemma float_minus_1: "py_float ''-1'' = Some (Finite (- 1))"
  by code_simp

lemma operand_0: "take_operand (Separate ''0'') = Inr ''0''"
  by (simp add: classify_def)

lemma operand_minus_1: "take_operand (Separate ''-1'') = Inr ''-1''"
  by (simp add: classify_def option_strings_def option_tuples_def negative_number_def
      is_digit_def digit_val_def)

lemma density_0: "density_of (ScaleFloat (Finite 0)) = Inr 0"
  by code_simp

lemma density_minus_1: "density_of (ScaleFloat (Finite (- 1))) = Inr (- 300)"
  by code_simp

lemma str_0: "str_int 0 = ''0''"
  by code_simp

text \<open>
  C8, as stated: request parsing rejects every scale value that is not a positive number.
  It does not: \<^verbatim>\<open>-s 0\<close> and \<^verbatim>\<open>-s -1\<close> are accepted, and with \<^verbatim>\<open>-s 0\<close> the render goes on and
  runs the converter with density 0.
\<close>

theorem nonpositive_scale_counterexample:
  "parse_args [Scale (Separate ''0'')] = Inr (default_args\<lparr>scale := ScaleFloat (Finite 0)\<rparr>) \<and>
   \<not> float_positive (Finite 0) \<and>
   parse_args [Scale (Separate ''-1'')] =
     Inr (default_args\<lparr>scale := ScaleFloat (Finite (- 1))\<rparr>) \<and>
   \<not> float_positive (Finite (- 1)) \<and>
   density_of (ScaleFloat (Finite 0)) = Inr 0 \<and>
   density_of (ScaleFloat (Finite (- 1))) = Inr (- 300) \<and>
   calls (trace (snd (tikz sample_env [Scale (Separate ''0'')] ''x'' sample_world))) =
     [[''xelatex'', ''-output-directory'', ''/tmp/tmpa1b2c3d4'', ''/tmp/tmpa1b2c3d4/tikzfile.tex''],
      [''magick'', ''convert'', ''-density'', ''0'', ''/tmp/tmpa1b2c3d4/tikzfile.pdf'',
       ''/tmp/tmpa1b2c3d4/tikzfile.png'']]"
proof -
  have p0: "parse_args [Scale (Separate ''0'')] =
              Inr (default_args\<lparr>scale := ScaleFloat (Finite 0)\<rparr>)"
    using operand_0 float_0 by (rule scale_accepted)
  have p1: "parse_args [Scale (Separate ''-1'')] =
              Inr (default_args\<lparr>scale := ScaleFloat (Finite (- 1))\<rparr>)"
    using operand_minus_1 float_minus_1 by (rule scale_accepted)
  have run: "calls (trace (snd (tikz sample_env [Scale (Separate ''0'')] ''x'' sample_world))) =
     [[''xelatex'', ''-output-directory'', ''/tmp/tmpa1b2c3d4'', ''/tmp/tmpa1b2c3d4/tikzfile.tex''],
      [''magick'', ''convert'', ''-density'', ''0'', ''/tmp/tmpa1b2c3d4/tikzfile.pdf'',
       ''/tmp/tmpa1b2c3d4/tikzfile.png'']]"
    unfolding tikz_def p0
    by (simp add: tikz_args_def prepare_latex_def add_input_def default_args_def export_path_def
        density_0 str_0 assemble_eq sample_env_def sample_world_def sample_exec_def
        latex2image_def latex2image_try_def mkdtemp_def write_file_def sh_latex_def
        sh_convert_def subprocess_call_def copyfile_def read_file_def rmtree_def isfile_def
        below_def Let_def path_simps del: density_of.simps)
  have s: "\<not> float_positive (Finite 0) \<and> \<not> float_positive (Finite (- 1))"
    by simp
  show ?thesis
    using p0 p1 s density_0 density_minus_1 run by (elim conjE) (intro conjI; assumption)
qed

text \<open>
  C8, amended: the scale argument must parse as a number. Request parsing fails on every
  request with a scale value that \<^verbatim>\<open>float\<close> does not accept, with exit status 2 unless the
  request also asks for help. The sign is not checked: an operand that \<^verbatim>\<open>float\<close> accepts is
  stored whatever its value, so values that are not positive, such as 0 and -1, are
  accepted.
\<close>

theorem scale_must_parse_as_float:
  "(Scale q \<in> set line \<and> py_float (operand_text q) = None \<longrightarrow>
      (\<exists>e. parse_args line = Inl e) \<and>
      (Help \<notin> set line \<longrightarrow> parse_args line = Inl (SystemExit 2))) \<and>
   (take_operand r = Inr v \<and> py_float v = Some x \<longrightarrow>
      parse_args [Scale r] = Inr (default_args\<lparr>scale := ScaleFloat x\<rparr>))"
proof (intro conjI impI)
  assume h: "Scale q \<in> set line \<and> py_float (operand_text q) = None"
  show "\<exists>e. parse_args line = Inl e"
  proof (cases "parse_args line")
    case (Inl e)
    then show ?thesis by blast
  next
    case (Inr a)
    then have "py_float (operand_text q) \<noteq> None"
      using h parse_args_scale by blast
    then show ?thesis
      using h by simp
  qed
next
  assume h: "Scale q \<in> set line \<and> py_float (operand_text q) = None"
  assume n: "Help \<notin> set line"
  show "parse_args line = Inl (SystemExit 2)"
  proof (cases "parse_args line")
    case (Inl e)
    then show ?thesis
      using n parse_args_exit by blast
  next
    case (Inr a)
    then have "py_float (operand_text q) \<noteq> None"
      using h parse_args_scale by blast
    then show ?thesis
      using h by simp
  qed
next
  assume "take_operand r = Inr v \<and> py_float v = Some x"
  then show "parse_args [Scale r] = Inr (default_args\<lparr>scale := ScaleFloat x\<rparr>)"
    using scale_accepted by blast
qed

theorem scale_must_parse_as_float_witness:
  "Scale (Separate ''abc'') \<in> set [Debug, Scale (Separate ''abc'')] \<and>
   py_float (operand_text (Separate ''abc'')) = None \<and>
   Help \<notin> set [Debug, Scale (Separate ''abc'')] \<and>
   parse_args [Debug, Scale (Separate ''abc'')] = Inl (SystemExit 2) \<and>
   take_operand (Separate ''-1'') = Inr ''-1'' \<and>
   py_float ''-1'' = Some (Finite (- 1)) \<and>
   parse_args [Scale (Separate ''-1'')] = Inr (default_args\<lparr>scale := ScaleFloat (Finite (- 1))\<rparr>)"
proof -
  have pa: "py_float ''abc'' = None"
    by code_simp
  note t = scale_must_parse_as_float [of "Separate ''abc''" "[Debug, Scale (Separate ''abc'')]"
      "Separate ''-1''" "''-1''" "Finite (- 1)"]
  have r1: "parse_args [Debug, Scale (Separate ''abc'')] = Inl (SystemExit 2)"
    using t pa by simp
  have r2: "parse_args [Scale (Separate ''-1'')] =
              Inr (default_args\<lparr>scale := ScaleFloat (Finite (- 1))\<rparr>)"
    using t operand_minus_1 float_minus_1 by blast
  show ?thesis
    using pa r1 operand_minus_1 float_minus_1 r2 by simp
qed

subsection \<open>Counting markers\<close>




















end
